theory Spec2Isabelle
  imports Main
begin

section \<open>Go library values used by main.go\<close>

text \<open>
  A \<open>time.Duration\<close> is a signed 64-bit count of nanoseconds; a \<open>time.Time\<close> is
  modelled by its clock reading in nanoseconds. Both are \<open>int\<close>; the one place where
  the 64-bit range matters (\<open>Time.Sub\<close> saturates) is written out.
\<close>

type_synonym Duration = int
type_synonym Time = int

definition Nanosecond :: Duration where "Nanosecond = 1"
definition Microsecond :: Duration where "Microsecond = 1000 * Nanosecond"
definition Millisecond :: Duration where "Millisecond = 1000 * Microsecond"
definition Second :: Duration where "Second = 1000 * Millisecond"
definition Minute :: Duration where "Minute = 60 * Second"

definition minDuration :: Duration where "minDuration = - (2 ^ 63)"
definition maxDuration :: Duration where "maxDuration = 2 ^ 63 - 1"

text \<open>\<open>t.Sub(u)\<close>: the difference, saturated to the range of a Duration.\<close>

definition Sub :: "Time \<Rightarrow> Time \<Rightarrow> Duration" where
  "Sub t u =
     (let d = t - u
      in if d > maxDuration then maxDuration
         else if d < minDuration then minDuration
         else d)"

text \<open>Go's \<open>%\<close> on signed integers truncates towards zero.\<close>

definition go_rem :: "int \<Rightarrow> int \<Rightarrow> int" where
  "go_rem a b = sgn a * (\<bar>a\<bar> mod \<bar>b\<bar>)"

text \<open>\<open>d.Truncate(m)\<close>: \<open>if m <= 0 { return d }; return d - d%m\<close>.\<close>

definition Truncate :: "Duration \<Rightarrow> Duration \<Rightarrow> Duration" where
  "Truncate d m = (if m \<le> 0 then d else d - go_rem d m)"

text \<open>
  \<open>d.String()\<close>, after the \<open>format\<close> method of package time. The buffer is filled from
  its end, so the model conses onto the text written so far.
\<close>

definition digit :: "int \<Rightarrow> char" where
  "digit v = ''0123456789'' ! nat (v mod 10)"

function fmtInt_loop :: "string \<Rightarrow> int \<Rightarrow> string" where
  "fmtInt_loop buf v =
     (if v > 0 then fmtInt_loop (digit (v mod 10) # buf) (v div 10) else buf)"
  by pat_completeness auto
termination
  by (relation "measure (\<lambda>(buf, v). nat v)") auto

declare fmtInt_loop.simps [simp del]

definition fmtInt :: "string \<Rightarrow> int \<Rightarrow> string" where
  "fmtInt buf v = (if v = 0 then CHR ''0'' # buf else fmtInt_loop buf v)"

text \<open>
  \<open>fmtFrac\<close> writes the fraction \<open>v / 10^prec\<close> without trailing zeros (and without the
  point when the fraction is zero) and returns what is left of \<open>v\<close>.
\<close>

fun fmtFrac_loop :: "nat \<Rightarrow> string \<Rightarrow> int \<Rightarrow> bool \<Rightarrow> string \<times> int \<times> bool" where
  "fmtFrac_loop 0 buf v print = (buf, v, print)"
| "fmtFrac_loop (Suc i) buf v print =
     (let d = v mod 10;
          print' = (print \<or> d \<noteq> 0);
          buf' = (if print' then digit d # buf else buf)
      in fmtFrac_loop i buf' (v div 10) print')"

definition fmtFrac :: "string \<Rightarrow> int \<Rightarrow> nat \<Rightarrow> string \<times> int" where
  "fmtFrac buf v prec =
     (case fmtFrac_loop prec buf v False of
        (buf', v', print) \<Rightarrow> (if print then CHR ''.'' # buf' else buf', v'))"

definition format_small :: "string \<Rightarrow> int \<Rightarrow> nat \<Rightarrow> string" where
  "format_small unit u prec = (case fmtFrac unit u prec of (buf, u') \<Rightarrow> fmtInt buf u')"

definition format_large :: "int \<Rightarrow> string" where
  "format_large u =
     (case fmtFrac ''s'' u 9 of
        (buf0, secs) \<Rightarrow>
          (let buf1 = fmtInt buf0 (secs mod 60);
               mins = secs div 60
           in if mins > 0 then
                (let buf2 = fmtInt (CHR ''m'' # buf1) (mins mod 60);
                     hours = mins div 60
                 in if hours > 0 then fmtInt (CHR ''h'' # buf2) hours else buf2)
              else buf1))"

text \<open>
  The magnitude \<open>u\<close> is the \<open>uint64\<close> of the source (for the least Duration the
  negation wraps to \<open>2^63\<close>, which is its magnitude), kept as a non-negative \<open>int\<close>.
\<close>

definition Duration_String :: "Duration \<Rightarrow> string" where
  "Duration_String d =
     (let u = \<bar>d\<bar>;
          neg = (d < 0);
          body =
            (if u < Second then
               (if u = 0 then ''0s''
                else if u < Microsecond then format_small ''ns'' u 0
                else if u < Millisecond then format_small [CHR 0xC2, CHR 0xB5, CHR ''s''] u 3
                else format_small ''ms'' u 6)
             else format_large u)
      in if neg then CHR ''-'' # body else body)"

text \<open>The \<open>%d\<close> verb of package fmt on an \<open>int\<close>: a minus sign, then the decimal digits.\<close>

definition Sprintf_d :: "int \<Rightarrow> string" where
  "Sprintf_d n = (if n < 0 then CHR ''-'' # fmtInt [] (- n) else fmtInt [] n)"

text \<open>
  An \<open>error\<close> value as the event loop inspects it: either an \<open>*exec.ExitError\<close>, whose
  \<open>Sys()\<close> is a \<open>syscall.WaitStatus\<close> with the given \<open>ExitStatus()\<close> (or is not one:
  \<open>None\<close>), or any other error. Both carry the text of \<open>Error()\<close>.
\<close>

datatype go_error =
    ExitError "int option" string
  | OtherError string

fun Error :: "go_error \<Rightarrow> string" where
  "Error (ExitError _ txt) = txt"
| "Error (OtherError txt) = txt"

section \<open>The data of main.go\<close>

text \<open>
  The \<open>Command\<close> struct. The request, the response writer and the flusher are handles
  into the world below; the two loggers are kept by their prefix.
\<close>

record Command =
  Name :: string
  Args :: "string list"
  ShowOutput :: bool
  CanFail :: bool
  AllowedExitCodes :: "int list"
  StdoutLogger :: string
  StderrLogger :: string

text \<open>
  A call of a logger is recorded with its format and arguments; the rendering of the
  log line (date, time, \<open>%+q\<close>, \<open>%v\<close>) is not needed by any property below.
\<close>

datatype log_arg = S string | Q "string list" | D int | V string

datatype log_call =
    Print string
  | Println string
  | Printf string "log_arg list"
  | Fatal string
  | Fatalf string "log_arg list"

text \<open>
  Everything the handler and \<open>Run\<close> act on: the HTTP response (status, headers, the
  lines written to the body, the number of flushes), the three logs (the standard
  logger of package log, and the command's two loggers with their prefix), and the
  calls made on the subprocess and on the ticker.
\<close>

record world =
  status :: "nat option"
  headers :: "(string \<times> string) list"
  response :: "string list"
  flushes :: nat
  std_log :: "log_call list"
  stdout_log :: "(string \<times> log_call) list"
  stderr_log :: "(string \<times> log_call) list"
  starts :: nat
  kills :: nat
  ticker_stops :: nat

definition world0 :: world where
  "world0 = \<lparr>status = None, headers = [], response = [], flushes = 0, std_log = [],
     stdout_log = [], stderr_log = [], starts = 0, kills = 0, ticker_stops = 0\<rparr>"

definition NewCommand :: "string \<Rightarrow> string list \<Rightarrow> Command" where
  "NewCommand name args =
     \<lparr>Name = name,
      Args = args,
      ShowOutput = True,
      CanFail = False,
      AllowedExitCodes = [0],
      StdoutLogger = ''['' @ name @ ''] '',
      StderrLogger = ''['' @ name @ ''] ''\<rparr>"

definition writeProgress :: "Command \<Rightarrow> string \<Rightarrow> world \<Rightarrow> world" where
  "writeProgress c message w =
     w\<lparr>stderr_log := stderr_log w @ [(StderrLogger c, Println message)],
       response := response w @ [message],
       flushes := flushes w + 1\<rparr>"

section \<open>The event loop of Run\<close>

text \<open>
  What the \<open>select\<close> of \<open>Run\<close> receives, one event per iteration, each with the answers
  of the environment that the iteration asks for:
  \<^item> a line from the \<open>output\<close> channel;
  \<^item> a tick from \<open>pollTimer.C\<close>: \<open>tick.Year()\<close>, the reading of \<open>time.Now()\<close> taken on
    receipt, the reading taken when \<open>lastIntervalTime\<close> is reset, and the result of
    \<open>cmd.Process.Kill()\<close> should the iteration call it (\<open>None\<close> is \<open>nil\<close>). A closed
    ticker channel delivers the zero time, whose year is 1;
  \<^item> the result of \<open>cmd.Wait()\<close> from the \<open>done\<close> channel (\<open>None\<close> is \<open>nil\<close>) and the reading
    of \<open>time.Now()\<close> taken on receipt.
\<close>

datatype event =
    OutputLine string
  | PollTick int Time Time "string option"
  | ProcDone "go_error option" Time

record loop_state =
  lastIntervalTime :: Time
  processTerminated :: bool

text \<open>
  \<open>Run\<close> either returns an error (\<open>Returned (Some text)\<close>, the text of the error),
  returns \<open>nil\<close> (\<open>Returned None\<close>), or has consumed every event given and is blocked in
  \<open>select\<close>. The three goroutines that feed the channels are the environment: the list
  of events is what they deliver, in the order in which \<open>select\<close> receives it.
\<close>

datatype run_result =
    Returned "string option"
  | Waiting loop_state

text \<open>
  Line 152: the maximum elapsed time given to the backoff ticker. The ticker itself
  (package backoff, with \<open>POLL_TIME\<close> and \<open>MAX_POLL_TIME\<close> as its intervals) is the
  environment: what it sends is the \<open>PollTick\<close> events.
\<close>

definition MaxElapsedTime :: Duration where
  "MaxElapsedTime = 60 * Minute"

text \<open>
  Lines 191 to 202: what \<open>Run\<close> returns for a completion error that is not tolerated.
  Only an exit error with a wait status is compared with the allowed exit codes.
\<close>

fun classify :: "Command \<Rightarrow> string \<Rightarrow> go_error \<Rightarrow> world \<Rightarrow> string option \<times> world" where
  "classify c commandDuration (ExitError (Some exitStatus) txt) w =
     (if exitStatus \<in> set (AllowedExitCodes c) then
        (None, w\<lparr>stdout_log := stdout_log w @
           [(StdoutLogger c, Printf ''Command completed with allowed status code in %s: %d''
               [S commandDuration, D exitStatus])]\<rparr>)
      else
        (Some (''Command exited with status code in '' @ commandDuration @ '': '' @
           Sprintf_d exitStatus), w))"
| "classify c commandDuration err w =
     (Some (''Command failed in '' @ commandDuration @ '': '' @ Error err), w)"

fun Run_loop :: "Command \<Rightarrow> Time \<Rightarrow> loop_state \<Rightarrow> world \<Rightarrow> event list \<Rightarrow> run_result \<times> world" where
  "Run_loop c startTime st w [] = (Waiting st, w)"
| "Run_loop c startTime st w (OutputLine line # evs) =
     (if ShowOutput c then Run_loop c startTime st (writeProgress c line w) evs
      else Run_loop c startTime st
             (w\<lparr>stderr_log := stderr_log w @ [(StderrLogger c, Println line)]\<rparr>) evs)"
| "Run_loop c startTime st w (PollTick year intervalTime now kill # evs) =
     (if year = 1 then
        (if \<not> processTerminated st then
           (let w1 = w\<lparr>ticker_stops := ticker_stops w + 1\<rparr>;
                w2 = w1\<lparr>kills := kills w1 + 1\<rparr>
            in case kill of
                 Some err \<Rightarrow> (Returned (Some (''Failed to terminate command: '' @ err)), w2)
               | None \<Rightarrow>
                   Run_loop c startTime (st\<lparr>processTerminated := True\<rparr>)
                     (writeProgress c
                        (''Command timed out in '' @
                           Duration_String (Truncate MaxElapsedTime Minute) @ '': '' @ Name c) w2)
                     evs)
         else Run_loop c startTime st w evs)
      else
        (if Sub intervalTime (lastIntervalTime st) > Second then
           Run_loop c startTime (st\<lparr>lastIntervalTime := now\<rparr>)
             (writeProgress c
                (''[Still waiting for command to complete: '' @ Name c @ '' --- '' @
                   Duration_String (Truncate (Sub intervalTime startTime) Second) @ '']'') w)
             evs
         else Run_loop c startTime st w evs))"
| "Run_loop c startTime st w (ProcDone err endTime # evs) =
     (let w1 = w\<lparr>ticker_stops := ticker_stops w + 1\<rparr>;
          commandDuration = Duration_String (Truncate (Sub endTime startTime) Second)
      in case err of
           Some e \<Rightarrow>
             (if CanFail c then
                (Returned None, w1\<lparr>stdout_log := stdout_log w1 @
                   [(StdoutLogger c, Printf ''Warning, command failed (ignoring error) in %s: %v''
                       [S commandDuration, V (Error e)])]\<rparr>)
              else (case classify c commandDuration e w1 of (r, w2) \<Rightarrow> (Returned r, w2)))
         | None \<Rightarrow>
             (Returned None,
              writeProgress c (''Command completed in '' @ commandDuration @ '': '' @ Name c) w1))"

text \<open>
  The answers of the environment to the set-up calls of \<open>Run\<close>: the errors of
  \<open>cmd.StdoutPipe()\<close>, \<open>cmd.StderrPipe()\<close> and \<open>cmd.Start()\<close> (\<open>None\<close> is \<open>nil\<close>), and the
  two readings of \<open>time.Now()\<close> taken before the loop.
\<close>

record run_env =
  StdoutPipe_err :: "string option"
  StderrPipe_err :: "string option"
  Start_err :: "string option"
  startTime_now :: Time
  lastIntervalTime_now :: Time

definition Run :: "Command \<Rightarrow> run_env \<Rightarrow> event list \<Rightarrow> world \<Rightarrow> run_result \<times> world" where
  "Run c env evs w =
     (let w1 = writeProgress c (''Running command: '' @ Name c) w;
          w2 = w1\<lparr>stdout_log := stdout_log w1 @
                 [(StdoutLogger c, Printf ''Running as: %s %+q'' [S (Name c), Q (Args c)])]\<rparr>
      in case StdoutPipe_err env of
           Some err \<Rightarrow> (Returned (Some (''error getting stdout pipe: '' @ err)), w2)
         | None \<Rightarrow>
             (case StderrPipe_err env of
                Some err \<Rightarrow> (Returned (Some (''error getting stderr pipe: '' @ err)), w2)
              | None \<Rightarrow>
                  (let w3 = w2\<lparr>starts := starts w2 + 1\<rparr>
                   in case Start_err env of
                        Some err \<Rightarrow> (Returned (Some (''error starting command: '' @ err)), w3)
                      | None \<Rightarrow>
                          Run_loop c (startTime_now env)
                            \<lparr>lastIntervalTime = lastIntervalTime_now env,
                             processTerminated = False\<rparr> w3 evs)))"

section \<open>Events before the completion event\<close>

text \<open>
  Three properties of the events that \<open>select\<close> hands to the loop, read off the events
  alone. An event is \<open>ordinary\<close> when it is a line of output or a tick of the running
  ticker (its year is not 1): neither the completion event nor a tick of the closed
  ticker channel. An event is \<open>not_done\<close> when it is not the completion event.
\<close>

fun ordinary :: "event \<Rightarrow> bool" where
  "ordinary (OutputLine line) = True"
| "ordinary (PollTick year intervalTime now kill) = (year \<noteq> 1)"
| "ordinary (ProcDone err endTime) = False"

fun not_done :: "event \<Rightarrow> bool" where
  "not_done (ProcDone err endTime) = False"
| "not_done e = True"

text \<open>
  The events \<open>still_running\<close> are those after which the completion event is still to
  come and no kill has failed: no completion event among them, and the first tick of
  the closed ticker channel, if there is one, carries a kill that succeeds (later such
  ticks attempt no kill, so their kill result is never read).
\<close>

fun still_running :: "event list \<Rightarrow> bool" where
  "still_running [] = True"
| "still_running (OutputLine line # evs) = still_running evs"
| "still_running (PollTick year intervalTime now kill # evs) =
     (if year = 1 then kill = None \<and> list_all not_done evs else still_running evs)"
| "still_running (ProcDone err endTime # evs) = False"

section \<open>The HTTP handler\<close>

text \<open>
  What the handler is given besides the run: \<open>os.Args\<close>, whether the response writer
  is an \<open>http.Flusher\<close>, and the result of reading the request body. \<open>json.Unmarshal\<close>
  is a parameter of the handler: it maps a body to its error, \<open>None\<close> when the body
  parses (the parsed message is not used afterwards).
\<close>

record handler_env =
  os_Args :: "string list"
  is_Flusher :: bool
  ReadAll_result :: "string + string"

text \<open>
  How a call of the handler ends: it returns; \<open>log.Fatal\<close> ends the host process with
  exit status 1; indexing \<open>os.Args\<close> out of range panics; or \<open>Run\<close> is still blocked.
  The goroutine of lines 222 to 225, which only logs when the client closes the
  connection, is left out.
\<close>

datatype handler_exit =
    HandlerReturns
  | HostExit nat
  | HandlerPanics
  | HandlerWaiting

text \<open>\<open>Header().Set(key, value)\<close> replaces the values of the key.\<close>

definition Header_Set :: "string \<Rightarrow> string \<Rightarrow> (string \<times> string) list \<Rightarrow> (string \<times> string) list" where
  "Header_Set key val hs = filter (\<lambda>(k, v). k \<noteq> key) hs @ [(key, val)]"

text \<open>
  \<open>http.Error(w, msg, code)\<close>: two headers are set, the status is written, and the
  message is printed as a line of the body.
\<close>

definition http_Error :: "string \<Rightarrow> nat \<Rightarrow> world \<Rightarrow> world" where
  "http_Error msg code w =
     w\<lparr>headers := Header_Set ''X-Content-Type-Options'' ''nosniff''
          (Header_Set ''Content-Type'' ''text/plain; charset=utf-8'' (headers w)),
       status := Some code,
       response := response w @ [msg]\<rparr>"

definition log_std :: "log_call \<Rightarrow> world \<Rightarrow> world" where
  "log_std l w = w\<lparr>std_log := std_log w @ [l]\<rparr>"

text \<open>Lines 248 to 250: the 200 response is committed before the command is built.\<close>

definition commit_200 :: "world \<Rightarrow> world" where
  "commit_200 w =
     (let w1 = w\<lparr>headers := Header_Set ''Transfer-Encoding'' ''chunked'' (headers w)\<rparr>;
          w2 = w1\<lparr>status := Some 200\<rparr>
      in w2\<lparr>flushes := flushes w2 + 1\<rparr>)"

text \<open>Lines 252 to 260: build the command from \<open>os.Args\<close>, run it, \<open>log.Fatal\<close> on an error.\<close>

definition run_command :: "handler_env \<Rightarrow> run_env \<Rightarrow> event list \<Rightarrow> world \<Rightarrow> handler_exit \<times> world" where
  "run_command h env evs w =
     (let w1 = commit_200 w;
          commandArgs = (if length (os_Args h) > 2 then drop 2 (os_Args h) else [])
      in if length (os_Args h) < 2 then (HandlerPanics, w1)
         else
           (case Run (NewCommand (os_Args h ! 1) commandArgs) env evs w1 of
              (Returned (Some err), w2) \<Rightarrow> (HostExit 1, log_std (Fatal err) w2)
            | (Returned None, w2) \<Rightarrow> (HandlerReturns, w2)
            | (Waiting st, w2) \<Rightarrow> (HandlerWaiting, w2)))"

definition handler ::
  "(string \<Rightarrow> string option) \<Rightarrow> handler_env \<Rightarrow> run_env \<Rightarrow> event list \<Rightarrow> world \<Rightarrow> handler_exit \<times> world" where
  "handler json_Unmarshal h env evs w =
     (if length (os_Args h) = 1 then
        (HostExit 1, log_std (Fatalf ''No command to run set!'' []) w)
      else if \<not> is_Flusher h then
        (HandlerReturns, http_Error ''Bad Request'' 400 w)
      else
        (case ReadAll_result h of
           Inl err \<Rightarrow>
             (HandlerReturns,
              http_Error ''Bad Request'' 400
                (log_std (Printf ''Failed to read request body: %v'' [V err]) w))
         | Inr body \<Rightarrow>
             (if length body > 0 then
                (case json_Unmarshal body of
                   Some err \<Rightarrow>
                     (HandlerReturns,
                      http_Error ''Bad Request'' 400
                        (log_std (Printf ''Failed to parse JSON body: %v'' [V err]) w))
                 | None \<Rightarrow> run_command h env evs w)
              else
                run_command h env evs
                  (log_std (Println ''Not a Pub/Sub invocation (no request body).'') w))))"

section \<open>Concrete inputs\<close>

text \<open>
  An environment in which every set-up call succeeds and the clock starts at 0, used
  with \<open>world0\<close> for the concrete runs below.
\<close>

definition env_ok :: run_env where
  "env_ok = \<lparr>StdoutPipe_err = None, StderrPipe_err = None, Start_err = None,
     startTime_now = 0, lastIntervalTime_now = 0\<rparr>"

text \<open>
  The same environment with the clock read at 5 s when the process starts, and the
  events of a run of about 62 minutes: a line of output, a tick after 2 s that writes
  the liveness line, a tick 0.4 s later that writes nothing, and another line.
\<close>

definition env_5s :: run_env where
  "env_5s = \<lparr>StdoutPipe_err = None, StderrPipe_err = None, Start_err = None,
     startTime_now = 5000000000, lastIntervalTime_now = 5000000100\<rparr>"

definition busy :: "event list" where
  "busy = [OutputLine ''working'',
           PollTick 2026 7000000000 7000000200 (Some ''not called''),
           PollTick 2026 7400000000 7400000200 None,
           OutputLine ''more'']"

text \<open>
  The same events followed by the deadline tick with a kill that succeeds, a line of
  output that arrives after it, and a further tick of the closed ticker channel.
\<close>

definition timed_out :: "event list" where
  "timed_out = busy @
     [PollTick 1 3605000000000 3605000000000 None,
      OutputLine ''late'',
      PollTick 1 3605000000001 3605000000001 (Some ''not called'')]"

text \<open>Two handler inputs with an empty request body: \<open>echo hello\<close> and \<open>false\<close>.\<close>

definition h_echo :: handler_env where
  "h_echo = \<lparr>os_Args = [''/bin/long-cloud-run'', ''echo'', ''hello''], is_Flusher = True,
     ReadAll_result = Inr []\<rparr>"

definition h_false :: handler_env where
  "h_false = \<lparr>os_Args = [''/bin/long-cloud-run'', ''false''], is_Flusher = True,
     ReadAll_result = Inr []\<rparr>"

section \<open>Helper lemmas\<close>

text \<open>
  A run that is still waiting after some events continues from there on the events
  that follow.
\<close>

lemma Run_loop_append:
  "Run_loop c t st w pre = (Waiting st', w') \<Longrightarrow>
   Run_loop c t st w (pre @ evs) = Run_loop c t st' w' evs"
proof (induction c t st w pre rule: Run_loop.induct)
  case (1 c startTime st w)
  then show ?case by simp
next
  case (2 c startTime st w line evs')
  then show ?case by (simp split: if_splits)
next
  case (3 c startTime st w year intervalTime now kill evs')
  then show ?case by (simp add: Let_def split: if_splits option.splits)
next
  case (4 c startTime st w err endTime evs')
  then show ?case by (simp add: Let_def split: if_splits option.splits prod.splits)
qed

lemma Run_append:
  assumes "Run c env pre w = (Waiting st', w')"
  shows "Run c env (pre @ evs) w = Run_loop c (startTime_now env) st' w' evs"
  using assms
  by (auto simp: Run_def Let_def Run_loop_append split: option.splits)

lemma Truncate_whole:
  assumes "0 < m"
  shows "Truncate d m mod m = 0"
proof (cases "0 \<le> d")
  case True
  then show ?thesis using assms
    by (simp add: Truncate_def go_rem_def sgn_if minus_mod_eq_mult_div)
next
  case False
  then have "d - go_rem d m = - (\<bar>d\<bar> - \<bar>d\<bar> mod m)"
    using assms by (simp add: go_rem_def sgn_if)
  then show ?thesis using assms
    by (simp add: Truncate_def minus_mod_eq_mult_div)
qed

lemma Second_pos: "0 < Second"
  by (simp add: Second_def Millisecond_def Microsecond_def Nanosecond_def)

lemma Duration_String_2ms: "Duration_String (Truncate (Sub 2000000 0) Second) = ''0s''"
  by code_simp

lemma Duration_String_max: "Duration_String (Truncate MaxElapsedTime Minute) = ''1h0m0s''"
  by code_simp

lemma Duration_String_1h: "Duration_String (Truncate (Sub 3600000000000 0) Second) = ''1h0m0s''"
  by code_simp

lemma Sprintf_d_1: "Sprintf_d 1 = ''1''"
  by code_simp

lemma Sprintf_d_m1: "Sprintf_d (- 1) = ''-1''"
  by code_simp

lemmas run_simps = Run_def NewCommand_def writeProgress_def world0_def env_ok_def Let_def

lemmas handler_simps =
  handler_def run_command_def commit_200_def log_std_def http_Error_def Header_Set_def

text \<open>The decimal rendering of an exit code determines the code.\<close>

lemma fmtInt_loop_append:
  "fmtInt_loop buf v = fmtInt_loop [] v @ buf"
proof (induction "nat v" arbitrary: v buf rule: less_induct)
  case less
  show ?case
  proof (cases "v > 0")
    case True
    then have smaller: "nat (v div 10) < nat v"
      by (simp add: nat_less_iff pos_imp_zdiv_nonneg_iff)
    have "fmtInt_loop buf v = fmtInt_loop (digit (v mod 10) # buf) (v div 10)"
      using True by (simp add: fmtInt_loop.simps [of buf v])
    also have "\<dots> = fmtInt_loop [] (v div 10) @ (digit (v mod 10) # buf)"
      using less [OF smaller] .
    finally have lhs: "fmtInt_loop buf v = fmtInt_loop [] (v div 10) @ (digit (v mod 10) # buf)" .
    have "fmtInt_loop [] v = fmtInt_loop [digit (v mod 10)] (v div 10)"
      using True by (simp add: fmtInt_loop.simps [of "[]" v])
    also have "\<dots> = fmtInt_loop [] (v div 10) @ [digit (v mod 10)]"
      using less [OF smaller] .
    finally show ?thesis using lhs by simp
  next
    case False
    then show ?thesis by (simp add: fmtInt_loop.simps [of _ v])
  qed
qed

lemma fmtInt_loop_pos:
  "v > 0 \<Longrightarrow> fmtInt_loop [] v = fmtInt_loop [] (v div 10) @ [digit (v mod 10)]"
  using fmtInt_loop_append [of "[digit (v mod 10)]" "v div 10"]
  by (simp add: fmtInt_loop.simps [of "[]" v])

lemma fmtInt_loop_Nil_iff:
  "fmtInt_loop [] v = [] \<longleftrightarrow> v \<le> 0"
proof (cases "v > 0")
  case True
  then show ?thesis by (simp add: fmtInt_loop_pos)
next
  case False
  then show ?thesis by (simp add: fmtInt_loop.simps [of "[]" v])
qed

lemma digit_in_digits: "digit v \<in> set ''0123456789''"
proof -
  have "nat (v mod 10) < length ''0123456789''"
    by simp
  then show ?thesis
    unfolding digit_def by (rule nth_mem)
qed

lemma digit_inj:
  assumes "digit a = digit b"
  shows "a mod 10 = b mod 10"
proof -
  have d: "distinct ''0123456789''" by simp
  have la: "nat (a mod 10) < length ''0123456789''" and lb: "nat (b mod 10) < length ''0123456789''"
    by simp_all
  have "nat (a mod 10 mod 10) = nat (b mod 10 mod 10)"
    using assms nth_eq_iff_index_eq [OF d la lb]
    by (simp add: digit_def)
  then show ?thesis by simp
qed

lemma fmtInt_loop_digits: "set (fmtInt_loop [] v) \<subseteq> set ''0123456789''"
proof (induction "nat v" arbitrary: v rule: less_induct)
  case less
  show ?case
  proof (cases "v > 0")
    case True
    then have smaller: "nat (v div 10) < nat v"
      by (simp add: nat_less_iff pos_imp_zdiv_nonneg_iff)
    from less [OF smaller] digit_in_digits [of "v mod 10"] True
    show ?thesis by (simp add: fmtInt_loop_pos)
  next
    case False
    then show ?thesis by (simp add: fmtInt_loop.simps [of "[]" v])
  qed
qed

lemma fmtInt_loop_inj:
  "0 < a \<Longrightarrow> 0 < b \<Longrightarrow> fmtInt_loop [] a = fmtInt_loop [] b \<Longrightarrow> a = b"
proof (induction "nat a" arbitrary: a b rule: less_induct)
  case less
  from less.prems have eq: "fmtInt_loop [] (a div 10) @ [digit (a mod 10)]
      = fmtInt_loop [] (b div 10) @ [digit (b mod 10)]"
    by (simp add: fmtInt_loop_pos)
  then have front: "fmtInt_loop [] (a div 10) = fmtInt_loop [] (b div 10)"
    and lastd: "digit (a mod 10) = digit (b mod 10)"
    by simp_all
  from digit_inj [OF lastd] have m: "a mod 10 = b mod 10"
    by simp
  have d: "a div 10 = b div 10"
  proof (cases "0 < a div 10")
    case True
    then have "fmtInt_loop [] (b div 10) \<noteq> []"
      using front fmtInt_loop_Nil_iff [of "a div 10"] by simp
    then have posb: "0 < b div 10"
      using fmtInt_loop_Nil_iff [of "b div 10"] by simp
    have smaller: "nat (a div 10) < nat a"
      using less.prems(1) by (simp add: nat_less_iff pos_imp_zdiv_nonneg_iff)
    from less.hyps [OF smaller True posb front] show ?thesis .
  next
    case False
    then have "fmtInt_loop [] (b div 10) = []"
      using front fmtInt_loop_Nil_iff [of "a div 10"] by simp
    then have "b div 10 \<le> 0"
      using fmtInt_loop_Nil_iff [of "b div 10"] by simp
    moreover have "0 \<le> a div 10" and "0 \<le> b div 10"
      using less.prems by (simp_all add: pos_imp_zdiv_nonneg_iff)
    ultimately show ?thesis
      using False by linarith
  qed
  have "a = 10 * (a div 10) + a mod 10" by simp
  also have "\<dots> = 10 * (b div 10) + b mod 10" using d m by simp
  also have "\<dots> = b" by simp
  finally show ?case .
qed

lemma fmtInt_loop_not_zero:
  assumes "0 < v"
  shows "fmtInt_loop [] v \<noteq> ''0''"
proof
  assume z: "fmtInt_loop [] v = ''0''"
  with assms have "fmtInt_loop [] (v div 10) @ [digit (v mod 10)] = [] @ [CHR ''0'']"
    by (simp add: fmtInt_loop_pos)
  then have front: "fmtInt_loop [] (v div 10) = []" and lastd: "digit (v mod 10) = CHR ''0''"
    by simp_all
  have "digit 0 = CHR ''0''" by (simp add: digit_def)
  with lastd have "digit (v mod 10) = digit 0" by simp
  from digit_inj [OF this] have "v mod 10 = 0" by simp
  moreover from front have "v div 10 \<le> 0" by (simp add: fmtInt_loop_Nil_iff)
  ultimately show False using assms
    by presburger
qed

lemma fmtInt_inj:
  assumes "0 \<le> a" and "0 \<le> b" and "fmtInt [] a = fmtInt [] b"
  shows "a = b"
proof (cases "a = 0")
  case True
  with assms fmtInt_loop_not_zero [of b] show ?thesis
    by (cases "b = 0") (simp_all add: fmtInt_def)
next
  case False
  with assms fmtInt_loop_not_zero [of a] have "b \<noteq> 0"
    by (auto simp: fmtInt_def)
  with False assms have "fmtInt_loop [] a = fmtInt_loop [] b" and "0 < a" and "0 < b"
    by (simp_all add: fmtInt_def)
  then show ?thesis
    using fmtInt_loop_inj by blast
qed

lemma fmtInt_no_minus:
  "CHR ''-'' \<notin> set (fmtInt [] v)"
  using fmtInt_loop_digits [of v]
  by (auto simp: fmtInt_def)

lemma Sprintf_d_inj:
  assumes "Sprintf_d a = Sprintf_d b"
  shows "a = b"
proof -
  have ma: "CHR ''-'' \<notin> set (fmtInt [] a)" and mb: "CHR ''-'' \<notin> set (fmtInt [] b)"
    by (rule fmtInt_no_minus)+
  show ?thesis
  proof (cases "a < 0")
    case True
    show ?thesis
    proof (cases "b < 0")
      case True
      with \<open>a < 0\<close> assms have "fmtInt [] (- a) = fmtInt [] (- b)"
        by (simp add: Sprintf_d_def)
      with \<open>a < 0\<close> True have "- a = - b"
        by (intro fmtInt_inj) simp_all
      then show ?thesis by simp
    next
      case False
      with True assms have "CHR ''-'' # fmtInt [] (- a) = fmtInt [] b"
        by (simp add: Sprintf_d_def)
      then have "CHR ''-'' \<in> set (fmtInt [] b)"
        by (metis list.set_intros(1))
      with mb show ?thesis by simp
    qed
  next
    case False
    show ?thesis
    proof (cases "b < 0")
      case True
      with False assms have "fmtInt [] a = CHR ''-'' # fmtInt [] (- b)"
        by (simp add: Sprintf_d_def)
      then have "CHR ''-'' \<in> set (fmtInt [] a)"
        by (metis list.set_intros(1))
      with ma show ?thesis by simp
    next
      case False
      with \<open>\<not> a < 0\<close> assms have "fmtInt [] a = fmtInt [] b"
        by (simp add: Sprintf_d_def)
      with \<open>\<not> a < 0\<close> False show ?thesis
        by (intro fmtInt_inj) simp_all
    qed
  qed
qed

text \<open>What the loop does to the kill count, the status and the response.\<close>

lemma classify_world:
  "classify c d e w = (r, w') \<Longrightarrow>
   kills w' = kills w \<and> response w' = response w \<and> status w' = status w"
  by (cases "(c, d, e, w)" rule: classify.cases) (auto split: if_splits)

lemma Run_loop_terminated_no_kill:
  "processTerminated st \<Longrightarrow> kills (snd (Run_loop c t st w evs)) = kills w"
proof (induction c t st w evs rule: Run_loop.induct)
  case (1 c startTime st w)
  then show ?case by simp
next
  case (2 c startTime st w line evs)
  then show ?case by (simp add: writeProgress_def)
next
  case (3 c startTime st w year intervalTime now kill evs)
  then show ?case by (simp add: writeProgress_def)
next
  case (4 c startTime st w err endTime evs)
  then show ?case
    by (auto simp: Let_def writeProgress_def dest: classify_world
        split: option.splits prod.splits)
qed

lemma Run_loop_status:
  "status (snd (Run_loop c t st w evs)) = status w"
proof (induction c t st w evs rule: Run_loop.induct)
  case (1 c startTime st w)
  then show ?case by simp
next
  case (2 c startTime st w line evs)
  then show ?case by (simp add: writeProgress_def)
next
  case (3 c startTime st w year intervalTime now kill evs)
  then show ?case by (simp add: Let_def writeProgress_def split: option.splits)
next
  case (4 c startTime st w err endTime evs)
  then show ?case
    by (auto simp: Let_def writeProgress_def dest: classify_world
        split: option.splits prod.splits)
qed

lemma Run_status:
  "status (snd (Run c env evs w)) = status w"
  by (simp add: Run_def Let_def Run_loop_status writeProgress_def split: option.splits)

lemma Run_loop_error_event_writes_nothing:
  assumes "Run_loop c t st w [ev] = (Returned (Some err), w')"
  shows "response w' = response w"
proof (cases ev)
  case (OutputLine line)
  with assms show ?thesis by (simp split: if_splits)
next
  case (PollTick year intervalTime now kill)
  with assms show ?thesis
    by (auto simp: Let_def split: if_splits option.splits)
next
  case (ProcDone e endTime)
  with assms show ?thesis
    by (auto simp: Let_def dest: classify_world split: if_splits option.splits prod.splits)
qed

lemma Run_setup_error:
  assumes "Run c env [] w = (Returned r, w0)"
  shows "Run c env evs w = (Returned r, w0)
         \<and> response w0 = response w @ [''Running command: '' @ Name c]"
  using assms
  by (auto simp: Run_def Let_def writeProgress_def split: option.splits)

text \<open>Every error the loop returns starts with \<open>F\<close> or \<open>C\<close>.\<close>

lemma classify_error_head:
  "classify c d e w = (Some m, w') \<Longrightarrow> hd m = CHR ''C''"
  by (cases "(c, d, e, w)" rule: classify.cases) (auto split: if_splits)

lemma Run_loop_error_head:
  "Run_loop c t st w evs = (Returned (Some m), w') \<Longrightarrow> hd m = CHR ''F'' \<or> hd m = CHR ''C''"
proof (induction c t st w evs rule: Run_loop.induct)
  case (1 c startTime st w)
  then show ?case by simp
next
  case (2 c startTime st w line evs)
  then show ?case by (simp split: if_splits)
next
  case (3 c startTime st w year intervalTime now kill evs)
  then show ?case by (auto simp: Let_def split: if_splits option.splits)
next
  case (4 c startTime st w err endTime evs)
  then show ?case
    by (auto simp: Let_def writeProgress_def dest: classify_error_head
        split: if_splits option.splits prod.splits)
qed

text \<open>What the events before the completion event leave of the loop.\<close>

lemma Run_loop_ordinary:
  "list_all ordinary evs \<Longrightarrow>
   \<exists>st' w'. Run_loop c t st w evs = (Waiting st', w')
     \<and> processTerminated st' = processTerminated st \<and> kills w' = kills w"
proof (induction c t st w evs rule: Run_loop.induct)
  case (1 c startTime st w)
  then show ?case by simp
next
  case (2 c startTime st w line evs)
  then show ?case by (simp add: writeProgress_def)
next
  case (3 c startTime st w year intervalTime now kill evs)
  then show ?case by (simp add: writeProgress_def)
next
  case (4 c startTime st w err endTime evs)
  then show ?case by simp
qed

lemma Run_loop_terminated_waits:
  "processTerminated st \<Longrightarrow> list_all not_done evs \<Longrightarrow>
   \<exists>st' w'. Run_loop c t st w evs = (Waiting st', w')"
proof (induction c t st w evs rule: Run_loop.induct)
  case (1 c startTime st w)
  then show ?case by simp
next
  case (2 c startTime st w line evs)
  then show ?case by simp
next
  case (3 c startTime st w year intervalTime now kill evs)
  then show ?case by simp
next
  case (4 c startTime st w err endTime evs)
  then show ?case by simp
qed

lemma Run_loop_still_running:
  "still_running evs \<Longrightarrow> \<exists>st' w'. Run_loop c t st w evs = (Waiting st', w')"
proof (induction c t st w evs rule: Run_loop.induct)
  case (1 c startTime st w)
  then show ?case by simp
next
  case (2 c startTime st w line evs)
  then show ?case by simp
next
  case (3 c startTime st w year intervalTime now kill evs)
  show ?case
  proof (cases "year = 1")
    case True
    with "3.prems" have k: "kill = None" and nd: "list_all not_done evs"
      by simp_all
    show ?thesis
    proof (cases "processTerminated st")
      case True
      from Run_loop_terminated_waits [OF True nd, of c startTime w] \<open>year = 1\<close> True
      show ?thesis by simp
    next
      case False
      have "processTerminated (st\<lparr>processTerminated := True\<rparr>)" by simp
      from Run_loop_terminated_waits [OF this nd] \<open>year = 1\<close> False k
      show ?thesis by (simp add: Let_def)
    qed
  next
    case False
    with 3 show ?thesis by simp
  qed
next
  case (4 c startTime st w err endTime evs)
  then show ?case by simp
qed

lemma Run_still_running:
  assumes "StdoutPipe_err env = None" and "StderrPipe_err env = None" and "Start_err env = None"
    and "still_running pre"
  shows "\<exists>st' w'. Run c env pre w = (Waiting st', w')"
  using assms Run_loop_still_running [of pre]
  by (simp add: Run_def Let_def)

lemma Run_ordinary:
  assumes "StdoutPipe_err env = None" and "StderrPipe_err env = None" and "Start_err env = None"
    and "list_all ordinary pre"
  shows "\<exists>st' w'. Run c env pre w = (Waiting st', w')
           \<and> \<not> processTerminated st' \<and> kills w' = kills w"
proof -
  from Run_loop_ordinary [OF assms(4)] obtain st' w' where
    "Run_loop c (startTime_now env)
       \<lparr>lastIntervalTime = lastIntervalTime_now env, processTerminated = False\<rparr>
       ((writeProgress c (''Running command: '' @ Name c) w)
          \<lparr>stdout_log := stdout_log (writeProgress c (''Running command: '' @ Name c) w) @
             [(StdoutLogger c, Printf ''Running as: %s %+q'' [S (Name c), Q (Args c)])],
           starts := starts (writeProgress c (''Running command: '' @ Name c) w) + 1\<rparr>) pre
     = (Waiting st', w')"
    and "\<not> processTerminated st'"
    and "kills w' = kills w"
    by (fastforce simp: writeProgress_def)
  with assms(1-3) show ?thesis
    by (simp add: Run_def Let_def)
qed

lemma still_running_ordinary_append:
  "list_all ordinary pre \<Longrightarrow> still_running (pre @ evs) = still_running evs"
proof (induction pre)
  case Nil
  then show ?case by simp
next
  case (Cons e pre)
  then show ?case by (cases e) simp_all
qed

lemma still_running_ordinary:
  "list_all ordinary pre \<Longrightarrow> still_running pre"
  using still_running_ordinary_append [of pre "[]"] by simp

lemma classify_fst:
  "fst (classify c d e w) = fst (classify c d e w0)"
  by (cases "(c, d, e, w)" rule: classify.cases) simp_all

lemma Run_loop_done_fst:
  "fst (Run_loop c t st w (ProcDone err endTime # rest))
     = fst (Run_loop c t st0 w0 [ProcDone err endTime])"
proof (cases err)
  case None
  then show ?thesis by (simp add: Let_def)
next
  case (Some e)
  with classify_fst [of c "Duration_String (Truncate (Sub endTime t) Second)" e
      "w\<lparr>ticker_stops := ticker_stops w + 1\<rparr>" "w0\<lparr>ticker_stops := ticker_stops w0 + 1\<rparr>"]
  show ?thesis by (simp add: Let_def case_prod_beta)
qed

lemma Run_done_fst:
  assumes "StdoutPipe_err env = None" and "StderrPipe_err env = None" and "Start_err env = None"
    and "still_running pre"
  shows "fst (Run c env (pre @ ProcDone err endTime # rest) w)
           = fst (Run_loop c (startTime_now env) st0 w0 [ProcDone err endTime])"
proof -
  from Run_still_running [OF assms] obtain st' w' where
    "Run c env pre w = (Waiting st', w')" by blast
  then have "Run c env (pre @ ProcDone err endTime # rest) w
      = Run_loop c (startTime_now env) st' w' (ProcDone err endTime # rest)"
    by (rule Run_append)
  then show ?thesis
    by (simp only: Run_loop_done_fst [of c "startTime_now env" st' w' err endTime rest st0 w0])
qed

text \<open>The elapsed time as the loop computes it, for a clock that does not run backwards.\<close>

lemma Sub_in_range:
  "u \<le> t \<Longrightarrow> t - u \<le> maxDuration \<Longrightarrow> Sub t u = t - u"
  by (simp add: Sub_def Let_def minDuration_def)

lemma Truncate_nonneg:
  "0 \<le> d \<Longrightarrow> 0 < m \<Longrightarrow> Truncate d m = d div m * m"
  by (simp add: Truncate_def go_rem_def sgn_if minus_mod_eq_div_mult)

lemma elapsed_whole_seconds:
  assumes "u \<le> t" and "t - u \<le> maxDuration"
  shows "Truncate (Sub t u) Second = (t - u) div Second * Second"
  using assms by (simp add: Sub_in_range Truncate_nonneg Second_pos)

text \<open>Values of the concrete runs.\<close>

lemma busy_tick_1: "Sub 7000000000 5000000100 > Second"
  by code_simp

lemma busy_tick_2: "\<not> Sub 7400000000 7000000200 > Second"
  by code_simp

lemma Duration_String_2s: "Duration_String (Truncate (Sub 7000000000 5000000000) Second) = ''2s''"
  by code_simp

lemma Duration_String_1h2m3s:
  "Duration_String (Truncate (Sub 3728500000000 5000000000) Second) = ''1h2m3s''"
  by code_simp

lemma elapsed_1h2m3s:
  "3723500000000 div Second * Second = (3723000000000 :: int)"
  by code_simp

lemma Sprintf_d_3: "Sprintf_d 3 = ''3''"
  by code_simp

lemma Run_busy:
  "\<exists>st' w'. Run (c\<lparr>ShowOutput := True\<rparr>) env_5s busy world0 = (Waiting st', w')
     \<and> response w' =
         [''Running command: '' @ Name c, ''working'',
          ''[Still waiting for command to complete: '' @ Name c @ '' --- 2s]'', ''more'']
     \<and> kills w' = 0 \<and> ticker_stops w' = 0"
  by (simp add: Run_def writeProgress_def world0_def env_5s_def busy_def Let_def
      busy_tick_1 busy_tick_2 Duration_String_2s)

lemma Duration_String_timed_out:
  "Duration_String (Truncate (Sub 3605100000000 5000000000) Second) = ''1h0m0s''"
  by code_simp

lemma Run_timed_out:
  "\<exists>st' w'. Run (c\<lparr>ShowOutput := True\<rparr>) env_5s timed_out world0 = (Waiting st', w')
     \<and> response w' =
         [''Running command: '' @ Name c, ''working'',
          ''[Still waiting for command to complete: '' @ Name c @ '' --- 2s]'', ''more'',
          ''Command timed out in 1h0m0s: '' @ Name c, ''late'']
     \<and> kills w' = 1 \<and> ticker_stops w' = 1"
  by (simp add: Run_def writeProgress_def world0_def env_5s_def busy_def timed_out_def Let_def
      busy_tick_1 busy_tick_2 Duration_String_2s Duration_String_max)

section \<open>The deadline tick\<close>

text \<open>
  C1 (as amended): when the deadline tick (the tick of the closed ticker channel, whose
  year is 1) arrives for the first time, the process having been started and only lines
  of output and ticks of the running ticker having been handled before, no kill has
  been attempted so far, and \<open>Run\<close> calls \<open>Kill\<close> then and never again, whatever the
  kill returns and whatever events follow: the run as a whole makes exactly one kill
  call. When the kill succeeds, the line \<open>Command timed out in 1h0m0s: <name>\<close> is
  written (the configured 60 minutes, truncated to whole minutes), \<open>processTerminated\<close>
  is set and the loop keeps waiting. \<open>Run\<close> has no outcome of its own for a timeout:
  what it returns is decided by the completion event, and is what it returns for the
  same completion event in a run with no deadline tick.
\<close>

theorem Run_timeout_kills_once:
  assumes "StdoutPipe_err env = None" and "StderrPipe_err env = None" and "Start_err env = None"
    and "list_all ordinary pre"
  shows "(\<exists>st'. fst (Run c env pre w) = Waiting st' \<and> \<not> processTerminated st'
            \<and> Run c env (pre @ [PollTick 1 intervalTime now None]) w =
                 (Waiting (st'\<lparr>processTerminated := True\<rparr>),
                  writeProgress c (''Command timed out in 1h0m0s: '' @ Name c)
                    ((snd (Run c env pre w))
                       \<lparr>ticker_stops := ticker_stops (snd (Run c env pre w)) + 1,
                        kills := kills (snd (Run c env pre w)) + 1\<rparr>)))
         \<and> kills (snd (Run c env pre w)) = kills w
         \<and> kills (snd (Run c env (pre @ PollTick 1 intervalTime now kill # evs) w)) = kills w + 1
         \<and> MaxElapsedTime = 60 * Minute
         \<and> Truncate MaxElapsedTime Minute = MaxElapsedTime
         \<and> Duration_String (Truncate MaxElapsedTime Minute) = ''1h0m0s''
         \<and> (list_all not_done mid \<and> list_all ordinary other \<longrightarrow>
              fst (Run c env
                     (pre @ PollTick 1 intervalTime now None # mid @ ProcDone err endTime # rest) w)
                = fst (Run c env (other @ ProcDone err endTime # rest') w))"
proof -
  from Run_ordinary [OF assms] obtain st' w' where
    h: "Run c env pre w = (Waiting st', w')"
    and n: "\<not> processTerminated st'"
    and k: "kills w' = kills w"
    by blast
  have first: "\<exists>st'. fst (Run c env pre w) = Waiting st' \<and> \<not> processTerminated st'
            \<and> Run c env (pre @ [PollTick 1 intervalTime now None]) w =
                 (Waiting (st'\<lparr>processTerminated := True\<rparr>),
                  writeProgress c (''Command timed out in 1h0m0s: '' @ Name c)
                    ((snd (Run c env pre w))
                       \<lparr>ticker_stops := ticker_stops (snd (Run c env pre w)) + 1,
                        kills := kills (snd (Run c env pre w)) + 1\<rparr>))"
    using h n by (simp add: Run_append Let_def Duration_String_max)
  have before: "kills (snd (Run c env pre w)) = kills w"
    using h k by simp
  have once: "kills (snd (Run c env (pre @ PollTick 1 intervalTime now kill # evs) w)) = kills w + 1"
  proof (cases kill)
    case None
    with h n k show ?thesis
      by (simp add: Run_append Let_def Run_loop_terminated_no_kill writeProgress_def)
  next
    case (Some e)
    with h n k show ?thesis
      by (simp add: Run_append Let_def)
  qed
  have maxi: "MaxElapsedTime = 60 * Minute \<and> Truncate MaxElapsedTime Minute = MaxElapsedTime"
    by (simp add: MaxElapsedTime_def Truncate_def go_rem_def Minute_def Second_def
        Millisecond_def Microsecond_def Nanosecond_def)
  have same: "list_all not_done mid \<and> list_all ordinary other \<longrightarrow>
              fst (Run c env
                     (pre @ PollTick 1 intervalTime now None # mid @ ProcDone err endTime # rest) w)
                = fst (Run c env (other @ ProcDone err endTime # rest') w)"
  proof
    assume a: "list_all not_done mid \<and> list_all ordinary other"
    then have "still_running (PollTick 1 intervalTime now None # mid)"
      by simp
    with assms(4) have s1: "still_running (pre @ PollTick 1 intervalTime now None # mid)"
      by (simp only: still_running_ordinary_append)
    from a have s2: "still_running other"
      by (simp add: still_running_ordinary)
    from Run_done_fst [OF assms(1-3) s1, of c err endTime rest w st' w']
         Run_done_fst [OF assms(1-3) s2, of c err endTime rest' w st' w']
    show "fst (Run c env
                 (pre @ PollTick 1 intervalTime now None # mid @ ProcDone err endTime # rest) w)
            = fst (Run c env (other @ ProcDone err endTime # rest') w)"
      by simp
  qed
  from first before once maxi Duration_String_max same show ?thesis by blast
qed

theorem Run_timeout_kills_once_witness:
  "response (snd (Run (NewCommand ''sleep'' [''7200'']) env_5s
          (busy @ [PollTick 1 3605000000000 3605000000000 None]) world0))
     = [''Running command: sleep'', ''working'',
        ''[Still waiting for command to complete: sleep --- 2s]'', ''more'',
        ''Command timed out in 1h0m0s: sleep'']
   \<and> kills (snd (Run (NewCommand ''sleep'' [''7200'']) env_5s busy world0)) = 0
   \<and> kills (snd (Run (NewCommand ''sleep'' [''7200'']) env_5s
          (busy @ PollTick 1 3605000000000 3605000000000 None #
             [OutputLine ''late'', PollTick 1 3605000000001 3605000000001 None,
              PollTick 1 3605000000002 3605000000002 (Some ''not called'')]) world0)) = 1
   \<and> fst (Run (NewCommand ''sleep'' [''7200'']) env_5s
          (busy @ PollTick 1 3605000000000 3605000000000 None #
             [OutputLine ''late'', PollTick 1 3605000000001 3605000000001 None] @
             ProcDone (Some (ExitError (Some (- 1)) ''signal: killed'')) 3605100000000 #
             [OutputLine ''ignored'']) world0)
     = Returned (Some ''Command exited with status code in 1h0m0s: -1'')"
proof -
  have a: "StdoutPipe_err env_5s = None" and b: "StderrPipe_err env_5s = None"
    and c: "Start_err env_5s = None"
    by (simp_all add: env_5s_def)
  have d: "list_all ordinary busy"
    by (simp add: busy_def)
  have e: "list_all not_done [OutputLine ''late'', PollTick 1 3605000000001 3605000000001 None]
           \<and> list_all ordinary [OutputLine ''working'']"
    by simp
  from Run_busy [of "NewCommand ''sleep'' [''7200'']"]
  have r: "response (snd (Run (NewCommand ''sleep'' [''7200'']) env_5s busy world0))
      = [''Running command: sleep'', ''working'',
         ''[Still waiting for command to complete: sleep --- 2s]'', ''more'']"
    by (auto simp: NewCommand_def)
  have w0: "kills world0 = 0"
    by (simp add: world0_def)
  note t = Run_timeout_kills_once [OF a b c d,
      where c = "NewCommand ''sleep'' [''7200'']" and w = world0
        and intervalTime = 3605000000000 and now = 3605000000000 and kill = None
        and evs = "[OutputLine ''late'', PollTick 1 3605000000001 3605000000001 None,
                    PollTick 1 3605000000002 3605000000002 (Some ''not called'')]"
        and mid = "[OutputLine ''late'', PollTick 1 3605000000001 3605000000001 None]"
        and other = "[OutputLine ''working'']"
        and err = "Some (ExitError (Some (- 1)) ''signal: killed'')"
        and endTime = 3605100000000
        and rest = "[OutputLine ''ignored'']" and rest' = "[]"]
  from t r have c1: "response (snd (Run (NewCommand ''sleep'' [''7200'']) env_5s
          (busy @ [PollTick 1 3605000000000 3605000000000 None]) world0))
     = [''Running command: sleep'', ''working'',
        ''[Still waiting for command to complete: sleep --- 2s]'', ''more'',
        ''Command timed out in 1h0m0s: sleep'']"
    by (auto simp: writeProgress_def NewCommand_def)
  from t w0 have c2: "kills (snd (Run (NewCommand ''sleep'' [''7200'']) env_5s busy world0)) = 0"
    by simp
  from t w0 have c3: "kills (snd (Run (NewCommand ''sleep'' [''7200'']) env_5s
          (busy @ PollTick 1 3605000000000 3605000000000 None #
             [OutputLine ''late'', PollTick 1 3605000000001 3605000000001 None,
              PollTick 1 3605000000002 3605000000002 (Some ''not called'')]) world0)) = 1"
    by simp
  have v: "fst (Run (NewCommand ''sleep'' [''7200'']) env_5s
          ([OutputLine ''working''] @
             ProcDone (Some (ExitError (Some (- 1)) ''signal: killed'')) 3605100000000 # [])
          world0)
     = Returned (Some ''Command exited with status code in 1h0m0s: -1'')"
    by (simp add: Run_def NewCommand_def writeProgress_def env_5s_def Let_def
        Duration_String_timed_out Sprintf_d_m1)
  from t e have "fst (Run (NewCommand ''sleep'' [''7200'']) env_5s
          (busy @ PollTick 1 3605000000000 3605000000000 None #
             [OutputLine ''late'', PollTick 1 3605000000001 3605000000001 None] @
             ProcDone (Some (ExitError (Some (- 1)) ''signal: killed'')) 3605100000000 #
             [OutputLine ''ignored'']) world0)
     = fst (Run (NewCommand ''sleep'' [''7200'']) env_5s
          ([OutputLine ''working''] @
             ProcDone (Some (ExitError (Some (- 1)) ''signal: killed'')) 3605100000000 # [])
          world0)"
    by blast
  with v have c4: "fst (Run (NewCommand ''sleep'' [''7200'']) env_5s
          (busy @ PollTick 1 3605000000000 3605000000000 None #
             [OutputLine ''late'', PollTick 1 3605000000001 3605000000001 None] @
             ProcDone (Some (ExitError (Some (- 1)) ''signal: killed'')) 3605100000000 #
             [OutputLine ''ignored'']) world0)
     = Returned (Some ''Command exited with status code in 1h0m0s: -1'')"
    by (simp only:)
  from c1 c2 c3 c4 show ?thesis by blast
qed

text \<open>
  C1 as stated fails on the outcome: in the ordinary timed-out run (the deadline tick,
  a successful kill, then the completion event of the killed process, whose exit status
  reads -1) \<open>Run\<close> returns the exit-status error, the same value it returns for that
  completion event when no timeout has happened.
\<close>

theorem Run_timeout_outcome_counterexample:
  "fst (Run (NewCommand ''sleep'' [''7200'']) env_ok
          [PollTick 1 3600000000000 3600000000000 None,
           ProcDone (Some (ExitError (Some (- 1)) ''signal: killed'')) 3600000000000] world0)
     = Returned (Some ''Command exited with status code in 1h0m0s: -1'')
   \<and> fst (Run (NewCommand ''sleep'' [''7200'']) env_ok
          [ProcDone (Some (ExitError (Some (- 1)) ''signal: killed'')) 3600000000000] world0)
     = Returned (Some ''Command exited with status code in 1h0m0s: -1'')"
  by (simp add: run_simps Duration_String_1h Duration_String_max Sprintf_d_m1)

section \<open>Errors and the response\<close>

text \<open>
  C2 (as amended): when the run ends in an error, the handler logs the error with
  \<open>log.Fatal\<close> on the standard logger and the host process exits with status 1; the
  status of the response stays 200, and the error is not written to the response: the
  event on which \<open>Run\<close> returns the error adds no line to it, and a set-up error leaves
  only the \<open>Running command\<close> line.
\<close>

theorem handler_error_goes_to_host_log:
  assumes "2 \<le> length (os_Args h)"
    and "is_Flusher h"
    and "ReadAll_result h = Inr body"
    and "body = [] \<or> json_Unmarshal body = None"
    and "w200 = commit_200 (if body = [] then
            log_std (Println ''Not a Pub/Sub invocation (no request body).'') w else w)"
    and "Run (NewCommand (os_Args h ! 1) (drop 2 (os_Args h))) env evs w200
           = (Returned (Some err), w')"
  shows "handler json_Unmarshal h env evs w = (HostExit 1, log_std (Fatal err) w')
         \<and> status (log_std (Fatal err) w') = Some 200
         \<and> response (log_std (Fatal err) w') = response w'
         \<and> (\<forall>pre ev st1 w1.
               evs = pre @ [ev] \<and>
               Run (NewCommand (os_Args h ! 1) (drop 2 (os_Args h))) env pre w200
                 = (Waiting st1, w1)
               \<longrightarrow> response w' = response w1)
         \<and> ((\<exists>r w0. Run (NewCommand (os_Args h ! 1) (drop 2 (os_Args h))) env [] w200
                       = (Returned r, w0))
              \<longrightarrow> response w' = response w200 @ [''Running command: '' @ os_Args h ! 1])"
proof -
  have args: "(if length (os_Args h) > 2 then drop 2 (os_Args h) else []) = drop 2 (os_Args h)"
    by simp
  have exits: "handler json_Unmarshal h env evs w = (HostExit 1, log_std (Fatal err) w')"
    using assms unfolding handler_def run_command_def Let_def args
    by auto
  have "status w200 = Some 200"
    using assms(5) by (simp add: commit_200_def Let_def)
  with Run_status [of "NewCommand (os_Args h ! 1) (drop 2 (os_Args h))" env evs w200] assms(6)
  have st: "status (log_std (Fatal err) w') = Some 200"
    by (simp add: log_std_def)
  have resp: "response (log_std (Fatal err) w') = response w'"
    by (simp add: log_std_def)
  have last_event: "\<forall>pre ev st1 w1.
               evs = pre @ [ev] \<and>
               Run (NewCommand (os_Args h ! 1) (drop 2 (os_Args h))) env pre w200
                 = (Waiting st1, w1)
               \<longrightarrow> response w' = response w1"
  proof (intro allI impI)
    fix pre ev st1 w1
    assume a: "evs = pre @ [ev] \<and>
               Run (NewCommand (os_Args h ! 1) (drop 2 (os_Args h))) env pre w200
                 = (Waiting st1, w1)"
    then have "Run (NewCommand (os_Args h ! 1) (drop 2 (os_Args h))) env evs w200
        = Run_loop (NewCommand (os_Args h ! 1) (drop 2 (os_Args h))) (startTime_now env) st1 w1 [ev]"
      by (simp add: Run_append)
    with assms(6) have "Run_loop (NewCommand (os_Args h ! 1) (drop 2 (os_Args h)))
        (startTime_now env) st1 w1 [ev] = (Returned (Some err), w')"
      by simp
    then show "response w' = response w1"
      by (rule Run_loop_error_event_writes_nothing)
  qed
  have at_start: "(\<exists>r w0. Run (NewCommand (os_Args h ! 1) (drop 2 (os_Args h))) env [] w200
                       = (Returned r, w0))
              \<longrightarrow> response w' = response w200 @ [''Running command: '' @ os_Args h ! 1]"
  proof
    assume "\<exists>r w0. Run (NewCommand (os_Args h ! 1) (drop 2 (os_Args h))) env [] w200
                       = (Returned r, w0)"
    then obtain r w0 where
      "Run (NewCommand (os_Args h ! 1) (drop 2 (os_Args h))) env [] w200 = (Returned r, w0)"
      by blast
    from Run_setup_error [OF this, of evs] assms(6)
    show "response w' = response w200 @ [''Running command: '' @ os_Args h ! 1]"
      by (simp add: NewCommand_def)
  qed
  from exits st resp last_event at_start show ?thesis by blast
qed

theorem handler_error_goes_to_host_log_witness:
  "handler (\<lambda>b. None) h_false env_ok
       [ProcDone (Some (ExitError (Some 1) ''exit status 1'')) 2000000] world0
     = (HostExit 1,
        log_std (Fatal ''Command exited with status code in 0s: 1'')
          (snd (Run (NewCommand ''false'' []) env_ok
                 [ProcDone (Some (ExitError (Some 1) ''exit status 1'')) 2000000]
                 (commit_200
                    (log_std (Println ''Not a Pub/Sub invocation (no request body).'') world0)))))
   \<and> response (snd (Run (NewCommand ''false'' []) env_ok
                 [ProcDone (Some (ExitError (Some 1) ''exit status 1'')) 2000000]
                 (commit_200
                    (log_std (Println ''Not a Pub/Sub invocation (no request body).'') world0))))
       = [''Running command: false'']
   \<and> handler (\<lambda>b. None) h_false (env_ok\<lparr>StdoutPipe_err := Some ''no pipe''\<rparr>)
       [ProcDone None 2000000] world0
     = (HostExit 1,
        log_std (Fatal ''error getting stdout pipe: no pipe'')
          (snd (Run (NewCommand ''false'' []) (env_ok\<lparr>StdoutPipe_err := Some ''no pipe''\<rparr>)
                 [ProcDone None 2000000]
                 (commit_200
                    (log_std (Println ''Not a Pub/Sub invocation (no request body).'') world0)))))
   \<and> response (snd (Run (NewCommand ''false'' []) (env_ok\<lparr>StdoutPipe_err := Some ''no pipe''\<rparr>)
                 [ProcDone None 2000000]
                 (commit_200
                    (log_std (Println ''Not a Pub/Sub invocation (no request body).'') world0))))
       = [''Running command: false'']"
proof -
  have a: "2 \<le> length (os_Args h_false)" by (simp add: h_false_def)
  have b: "is_Flusher h_false" by (simp add: h_false_def)
  have c: "ReadAll_result h_false = Inr []" by (simp add: h_false_def)
  have d: "([]::string) = [] \<or> (\<lambda>b. None) ([]::string) = (None :: string option)" by simp
  have e: "commit_200 (log_std (Println ''Not a Pub/Sub invocation (no request body).'') world0)
      = commit_200 (if ([]::string) = [] then
            log_std (Println ''Not a Pub/Sub invocation (no request body).'') world0 else world0)"
    by simp
  have f: "os_Args h_false ! 1 = ''false''" "drop 2 (os_Args h_false) = []"
    by (simp_all add: h_false_def)
  have "\<exists>w'. Run (NewCommand ''false'' []) env_ok
           [ProcDone (Some (ExitError (Some 1) ''exit status 1'')) 2000000]
           (commit_200 (log_std (Println ''Not a Pub/Sub invocation (no request body).'') world0))
         = (Returned (Some ''Command exited with status code in 0s: 1''), w')"
    by (simp add: run_simps handler_simps Duration_String_2ms Sprintf_d_1)
  then obtain w' where run1:
    "Run (NewCommand (os_Args h_false ! 1) (drop 2 (os_Args h_false))) env_ok
           [ProcDone (Some (ExitError (Some 1) ''exit status 1'')) 2000000]
           (commit_200 (log_std (Println ''Not a Pub/Sub invocation (no request body).'') world0))
         = (Returned (Some ''Command exited with status code in 0s: 1''), w')"
    using f by auto
  have "\<exists>st1 w1. Run (NewCommand ''false'' []) env_ok []
           (commit_200 (log_std (Println ''Not a Pub/Sub invocation (no request body).'') world0))
         = (Waiting st1, w1) \<and> response w1 = [''Running command: false'']"
    by (simp add: run_simps handler_simps)
  then obtain st1 w1 where pre1:
    "Run (NewCommand (os_Args h_false ! 1) (drop 2 (os_Args h_false))) env_ok []
           (commit_200 (log_std (Println ''Not a Pub/Sub invocation (no request body).'') world0))
         = (Waiting st1, w1)"
    and r1: "response w1 = [''Running command: false'']"
    using f by auto
  have "\<exists>w''. Run (NewCommand ''false'' []) (env_ok\<lparr>StdoutPipe_err := Some ''no pipe''\<rparr>)
           [ProcDone None 2000000]
           (commit_200 (log_std (Println ''Not a Pub/Sub invocation (no request body).'') world0))
         = (Returned (Some ''error getting stdout pipe: no pipe''), w'')"
    by (simp add: run_simps handler_simps)
  then obtain w'' where run2:
    "Run (NewCommand (os_Args h_false ! 1) (drop 2 (os_Args h_false)))
           (env_ok\<lparr>StdoutPipe_err := Some ''no pipe''\<rparr>) [ProcDone None 2000000]
           (commit_200 (log_std (Println ''Not a Pub/Sub invocation (no request body).'') world0))
         = (Returned (Some ''error getting stdout pipe: no pipe''), w'')"
    using f by auto
  have "\<exists>r w0. Run (NewCommand ''false'' []) (env_ok\<lparr>StdoutPipe_err := Some ''no pipe''\<rparr>) []
           (commit_200 (log_std (Println ''Not a Pub/Sub invocation (no request body).'') world0))
         = (Returned r, w0)"
    by (simp add: run_simps handler_simps)
  then have pre2: "\<exists>r w0. Run (NewCommand (os_Args h_false ! 1) (drop 2 (os_Args h_false)))
           (env_ok\<lparr>StdoutPipe_err := Some ''no pipe''\<rparr>) []
           (commit_200 (log_std (Println ''Not a Pub/Sub invocation (no request body).'') world0))
         = (Returned r, w0)"
    using f by simp
  have r200: "response (commit_200
      (log_std (Println ''Not a Pub/Sub invocation (no request body).'') world0)) = []"
    by (simp add: handler_simps world0_def)
  from handler_error_goes_to_host_log [OF a b c d e run1]
       handler_error_goes_to_host_log [OF a b c d e run2]
       run1 run2 pre1 r1 pre2 r200 f
  show ?thesis
    by simp
qed

text \<open>
  C2 as stated fails: for the command \<open>false\<close> (exit code 1, allowed codes \<open>[0]\<close>) the host
  process exits with status 1 and the error is on the host log, but the response body
  holds the \<open>Running command\<close> line only; no line of it reports the error.
\<close>

theorem handler_error_not_in_response_counterexample:
  "fst (handler (\<lambda>b. None) h_false env_ok
          [ProcDone (Some (ExitError (Some 1) ''exit status 1'')) 2000000] world0) = HostExit 1
   \<and> response (snd (handler (\<lambda>b. None) h_false env_ok
          [ProcDone (Some (ExitError (Some 1) ''exit status 1'')) 2000000] world0))
       = [''Running command: false'']
   \<and> std_log (snd (handler (\<lambda>b. None) h_false env_ok
          [ProcDone (Some (ExitError (Some 1) ''exit status 1'')) 2000000] world0))
       = [Println ''Not a Pub/Sub invocation (no request body).'',
          Fatal ''Command exited with status code in 0s: 1'']"
  by (simp add: handler_simps run_simps h_false_def Duration_String_2ms Sprintf_d_1)

section \<open>Classification of the completion event\<close>

text \<open>
  C3 (as amended): when the process exits with a code outside the allowed set, failures
  are not tolerated, and \<open>Run\<close> has not returned before on a failed kill (the process was
  started, and the events before the completion event are lines of output, ticks, and
  at most a deadline tick whose kill succeeds), \<open>Run\<close> returns the error
  \<open>Command exited with status code in <elapsed>: <code>\<close>, which ends in the decimal
  rendering of exactly that exit code: no other code has the same rendering.
\<close>

theorem Run_disallowed_exit_code_fails:
  assumes "StdoutPipe_err env = None" and "StderrPipe_err env = None" and "Start_err env = None"
    and "still_running pre"
    and "\<not> CanFail c"
    and "code \<notin> set (AllowedExitCodes c)"
  shows "Run c env (pre @ ProcDone (Some (ExitError (Some code) txt)) endTime # rest) w =
           (Returned (Some (''Command exited with status code in '' @
               Duration_String (Truncate (Sub endTime (startTime_now env)) Second) @
               '': '' @ Sprintf_d code)),
            (snd (Run c env pre w))
              \<lparr>ticker_stops := ticker_stops (snd (Run c env pre w)) + 1\<rparr>)
         \<and> (\<forall>code'. Sprintf_d code' = Sprintf_d code \<longrightarrow> code' = code)"
proof -
  from Run_still_running [OF assms(1-4)] obtain st' w' where
    h: "Run c env pre w = (Waiting st', w')" by blast
  with assms(5,6) Sprintf_d_inj show ?thesis
    by (auto simp: Run_append Let_def)
qed

theorem Run_disallowed_exit_code_fails_witness:
  "fst (Run (NewCommand ''sh'' [''job.sh'']) env_5s
          (busy @ ProcDone (Some (ExitError (Some 3) ''exit status 3'')) 3728500000000 #
             [OutputLine ''ignored'']) world0)
     = Returned (Some ''Command exited with status code in 1h2m3s: 3'')
   \<and> response (snd (Run (NewCommand ''sh'' [''job.sh'']) env_5s
          (busy @ ProcDone (Some (ExitError (Some 3) ''exit status 3'')) 3728500000000 #
             [OutputLine ''ignored'']) world0))
     = [''Running command: sh'', ''working'',
        ''[Still waiting for command to complete: sh --- 2s]'', ''more'']"
proof -
  have a: "StdoutPipe_err env_5s = None" and b: "StderrPipe_err env_5s = None"
    and c: "Start_err env_5s = None"
    by (simp_all add: env_5s_def)
  have d: "still_running busy"
    by (simp add: busy_def)
  have e: "\<not> CanFail (NewCommand ''sh'' [''job.sh''])"
    by (simp add: NewCommand_def)
  have f: "(3::int) \<notin> set (AllowedExitCodes (NewCommand ''sh'' [''job.sh'']))"
    by (simp add: NewCommand_def)
  have s: "startTime_now env_5s = 5000000000"
    by (simp add: env_5s_def)
  from Run_busy [of "NewCommand ''sh'' [''job.sh'']"]
  have r: "response (snd (Run (NewCommand ''sh'' [''job.sh'']) env_5s busy world0))
      = [''Running command: sh'', ''working'',
         ''[Still waiting for command to complete: sh --- 2s]'', ''more'']"
    by (auto simp: NewCommand_def)
  from Run_disallowed_exit_code_fails [OF a b c d e f, of "''exit status 3''" 3728500000000
         "[OutputLine ''ignored'']" world0, THEN conjunct1] r s
  show ?thesis
    by (simp add: Duration_String_1h2m3s Sprintf_d_3)
qed

text \<open>
  C3 as stated fails when the deadline tick is handled first and its kill fails because
  the process has already finished: \<open>Run\<close> returns the kill error, which does not name
  the exit code, although the process exited with code 3, outside the allowed set.
\<close>

theorem Run_exit_code_after_failed_kill_counterexample:
  "fst (Run (NewCommand ''sh'' [''job.sh'']) env_ok
       [PollTick 1 3600000000000 3600000000000 (Some ''os: process already finished''),
        ProcDone (Some (ExitError (Some 3) ''exit status 3'')) 3600000000000] world0)
     = Returned (Some ''Failed to terminate command: os: process already finished'')"
  by (simp add: run_simps)




text \<open>
  C5 (as amended): when the command is failure-tolerant (\<open>CanFail\<close>) and \<open>Run\<close> has not
  returned before on a failed kill (the process was started, and the events before the
  completion event are lines of output, ticks, and at most a deadline tick whose kill
  succeeds), any completion error, whatever its kind and exit code, makes \<open>Run\<close> return
  \<open>nil\<close>; the only effect besides stopping the ticker is one warning on the command's
  stdout logger.
\<close>

theorem Run_tolerated_failure_succeeds:
  assumes "StdoutPipe_err env = None" and "StderrPipe_err env = None" and "Start_err env = None"
    and "still_running pre"
    and "CanFail c"
  shows "Run c env (pre @ ProcDone (Some e) endTime # rest) w =
           (Returned None,
            (snd (Run c env pre w))
              \<lparr>ticker_stops := ticker_stops (snd (Run c env pre w)) + 1,
               stdout_log := stdout_log (snd (Run c env pre w)) @
                 [(StdoutLogger c,
                   Printf ''Warning, command failed (ignoring error) in %s: %v''
                     [S (Duration_String (Truncate (Sub endTime (startTime_now env)) Second)),
                      V (Error e)])]\<rparr>)"
proof -
  from Run_still_running [OF assms(1-4)] obtain st' w' where
    h: "Run c env pre w = (Waiting st', w')" by blast
  with assms(5) show ?thesis
    by (simp add: Run_append Let_def)
qed

theorem Run_tolerated_failure_succeeds_witness:
  "fst (Run (NewCommand ''sleep'' [''7200'']\<lparr>CanFail := True\<rparr>) env_5s
          (timed_out @ ProcDone (Some (ExitError (Some (- 1)) ''signal: killed'')) 3605100000000 #
             [OutputLine ''ignored'']) world0)
     = Returned None
   \<and> response (snd (Run (NewCommand ''sleep'' [''7200'']\<lparr>CanFail := True\<rparr>) env_5s
          (timed_out @ ProcDone (Some (ExitError (Some (- 1)) ''signal: killed'')) 3605100000000 #
             [OutputLine ''ignored'']) world0))
     = [''Running command: sleep'', ''working'',
        ''[Still waiting for command to complete: sleep --- 2s]'', ''more'',
        ''Command timed out in 1h0m0s: sleep'', ''late'']
   \<and> last (stdout_log (snd (Run (NewCommand ''sleep'' [''7200'']\<lparr>CanFail := True\<rparr>) env_5s
          (timed_out @ ProcDone (Some (ExitError (Some (- 1)) ''signal: killed'')) 3605100000000 #
             [OutputLine ''ignored'']) world0)))
     = (''[sleep] '', Printf ''Warning, command failed (ignoring error) in %s: %v''
                        [S ''1h0m0s'', V ''signal: killed''])"
proof -
  have a: "StdoutPipe_err env_5s = None" and b: "StderrPipe_err env_5s = None"
    and c: "Start_err env_5s = None"
    by (simp_all add: env_5s_def)
  have d: "still_running timed_out"
    by (simp add: timed_out_def busy_def)
  have e: "CanFail (NewCommand ''sleep'' [''7200'']\<lparr>CanFail := True\<rparr>)"
    by simp
  have s: "startTime_now env_5s = 5000000000"
    by (simp add: env_5s_def)
  from Run_timed_out [of "NewCommand ''sleep'' [''7200'']\<lparr>CanFail := True\<rparr>"]
  have r: "response (snd (Run (NewCommand ''sleep'' [''7200'']\<lparr>CanFail := True\<rparr>)
               env_5s timed_out world0))
      = [''Running command: sleep'', ''working'',
         ''[Still waiting for command to complete: sleep --- 2s]'', ''more'',
         ''Command timed out in 1h0m0s: sleep'', ''late'']"
    by (auto simp: NewCommand_def)
  from Run_tolerated_failure_succeeds [OF a b c d e,
         of "ExitError (Some (- 1)) ''signal: killed''" 3605100000000
         "[OutputLine ''ignored'']" world0] r s
  show ?thesis
    by (simp add: NewCommand_def Duration_String_timed_out)
qed

text \<open>
  C5 as stated fails when the deadline tick is handled first and its kill fails because
  the process has already finished: \<open>Run\<close> returns the kill error although the command
  is failure-tolerant and its process exited with code 2.
\<close>

theorem Run_tolerated_after_failed_kill_counterexample:
  "fst (Run (NewCommand ''false'' []\<lparr>CanFail := True\<rparr>) env_ok
       [PollTick 1 3600000000000 3600000000000 (Some ''os: process already finished''),
        ProcDone (Some (ExitError (Some 2) ''exit status 2'')) 3600000000000] world0)
     = Returned (Some ''Failed to terminate command: os: process already finished'')"
  by (simp add: run_simps)

text \<open>
  C6 (as amended): when the process exits with status 0 (the completion event carries
  no error) and \<open>Run\<close> has not returned before on a failed kill (the process was started,
  and the events before the completion event are lines of output, ticks, and at most a
  deadline tick whose kill succeeds), \<open>Run\<close> returns \<open>nil\<close> and its last progress line is
  \<open>Command completed in <elapsed>: <name>\<close>. The elapsed time is the difference of the
  two clock readings cut down to a whole number of seconds. Events after the completion
  event are never read.
\<close>

theorem Run_exit_zero_completes:
  assumes "StdoutPipe_err env = None" and "StderrPipe_err env = None" and "Start_err env = None"
    and "still_running pre"
  shows "fst (Run c env (pre @ ProcDone None endTime # rest) w) = Returned None
         \<and> response (snd (Run c env (pre @ ProcDone None endTime # rest) w)) =
             response (snd (Run c env pre w)) @
               [''Command completed in '' @
                  Duration_String (Truncate (Sub endTime (startTime_now env)) Second) @
                  '': '' @ Name c]
         \<and> Truncate (Sub endTime (startTime_now env)) Second mod Second = 0
         \<and> (startTime_now env \<le> endTime \<and> endTime - startTime_now env \<le> maxDuration \<longrightarrow>
              Truncate (Sub endTime (startTime_now env)) Second
                = (endTime - startTime_now env) div Second * Second)"
proof -
  from Run_still_running [OF assms] obtain st' w' where
    h: "Run c env pre w = (Waiting st', w')" by blast
  then show ?thesis
    by (simp add: Run_append Let_def writeProgress_def Truncate_whole Second_pos
        elapsed_whole_seconds)
qed

theorem Run_exit_zero_completes_witness:
  "fst (Run (NewCommand ''echo'' [''hello'']) env_5s
          (busy @ ProcDone None 3728500000000 # [OutputLine ''ignored'']) world0)
     = Returned None
   \<and> response (snd (Run (NewCommand ''echo'' [''hello'']) env_5s
          (busy @ ProcDone None 3728500000000 # [OutputLine ''ignored'']) world0))
     = [''Running command: echo'', ''working'',
        ''[Still waiting for command to complete: echo --- 2s]'', ''more'',
        ''Command completed in 1h2m3s: echo'']
   \<and> Truncate (Sub 3728500000000 5000000000) Second = 3723000000000"
proof -
  have a: "StdoutPipe_err env_5s = None" and b: "StderrPipe_err env_5s = None"
    and c: "Start_err env_5s = None"
    by (simp_all add: env_5s_def)
  have d: "still_running busy"
    by (simp add: busy_def)
  have s: "startTime_now env_5s = 5000000000"
    by (simp add: env_5s_def)
  have t: "startTime_now env_5s \<le> 3728500000000
           \<and> 3728500000000 - startTime_now env_5s \<le> maxDuration"
    by (simp add: env_5s_def maxDuration_def)
  from Run_busy [of "NewCommand ''echo'' [''hello'']"]
  have r: "response (snd (Run (NewCommand ''echo'' [''hello'']) env_5s busy world0))
      = [''Running command: echo'', ''working'',
         ''[Still waiting for command to complete: echo --- 2s]'', ''more'']"
    by (auto simp: NewCommand_def)
  from Run_exit_zero_completes [OF a b c d, of "NewCommand ''echo'' [''hello'']" 3728500000000
         "[OutputLine ''ignored'']" world0] r s t
  show ?thesis
    by (simp add: NewCommand_def Duration_String_1h2m3s elapsed_1h2m3s)
qed

text \<open>
  C6 as stated fails when the deadline tick is handled first and its kill fails because
  the process has already finished: \<open>Run\<close> returns the kill error, not \<open>nil\<close>, and the
  \<open>Command completed\<close> line is not written, although the process exited with status 0.
\<close>

theorem Run_exit_zero_after_failed_kill_counterexample:
  "Run (NewCommand ''echo'' [''hello'']) env_ok
       [PollTick 1 3600000000000 3600000000000 (Some ''os: process already finished''),
        ProcDone None 3600000000000] world0
     = (Returned (Some ''Failed to terminate command: os: process already finished''),
        world0\<lparr>response := [''Running command: echo''], flushes := 1,
               stdout_log := [(''[echo] '', Printf ''Running as: %s %+q'' [S ''echo'', Q [''hello'']])],
               stderr_log := [(''[echo] '', Println ''Running command: echo'')],
               starts := 1, kills := 1, ticker_stops := 1\<rparr>)"
  by (simp add: run_simps)

section \<open>Failure before the process starts\<close>

text \<open>
  C7: when acquiring the stdout pipe or the stderr pipe fails, \<open>Run\<close> returns at once
  with the error \<open>error getting stdout pipe: ...\<close> or \<open>error getting stderr pipe: ...\<close>,
  whatever events would follow: \<open>cmd.Start\<close> is never called, no kill is attempted and
  the response holds the \<open>Running command\<close> line only. The text of this error differs
  from every error the event loop can return.
\<close>

theorem Run_pipe_failure_is_setup_error:
  assumes "StdoutPipe_err env = Some e \<or> (StdoutPipe_err env = None \<and> StderrPipe_err env = Some e)"
  shows "fst (Run c env evs w) =
           Returned (Some ((if StdoutPipe_err env = None then ''error getting stderr pipe: ''
                            else ''error getting stdout pipe: '') @ e))
         \<and> starts (snd (Run c env evs w)) = starts w
         \<and> kills (snd (Run c env evs w)) = kills w
         \<and> response (snd (Run c env evs w)) = response w @ [''Running command: '' @ Name c]
         \<and> (\<forall>c' t st w0 evs' m w1.
               Run_loop c' t st w0 evs' = (Returned (Some m), w1) \<longrightarrow>
               m \<noteq> ''error getting stdout pipe: '' @ e \<and> m \<noteq> ''error getting stderr pipe: '' @ e)"
proof -
  have distinct: "\<forall>c' t st w0 evs' m w1.
               Run_loop c' t st w0 evs' = (Returned (Some m), w1) \<longrightarrow>
               m \<noteq> ''error getting stdout pipe: '' @ e \<and> m \<noteq> ''error getting stderr pipe: '' @ e"
  proof (intro allI impI)
    fix c' t st w0 evs' m w1
    assume "Run_loop c' t st w0 evs' = (Returned (Some m), w1)"
    then have "hd m = CHR ''F'' \<or> hd m = CHR ''C''"
      by (rule Run_loop_error_head)
    then show "m \<noteq> ''error getting stdout pipe: '' @ e \<and> m \<noteq> ''error getting stderr pipe: '' @ e"
      by auto
  qed
  from assms have "fst (Run c env evs w) =
           Returned (Some ((if StdoutPipe_err env = None then ''error getting stderr pipe: ''
                            else ''error getting stdout pipe: '') @ e))
         \<and> starts (snd (Run c env evs w)) = starts w
         \<and> kills (snd (Run c env evs w)) = kills w
         \<and> response (snd (Run c env evs w)) = response w @ [''Running command: '' @ Name c]"
    by (auto simp: Run_def Let_def writeProgress_def)
  with distinct show ?thesis by blast
qed

theorem Run_pipe_failure_is_setup_error_witness:
  "fst (Run (NewCommand ''echo'' [''hello''])
          (env_ok\<lparr>StderrPipe_err := Some ''exec: Stderr already set''\<rparr>)
          [OutputLine ''hello'', ProcDone None 2000000] world0)
     = Returned (Some ''error getting stderr pipe: exec: Stderr already set'')
   \<and> starts (snd (Run (NewCommand ''echo'' [''hello''])
          (env_ok\<lparr>StderrPipe_err := Some ''exec: Stderr already set''\<rparr>)
          [OutputLine ''hello'', ProcDone None 2000000] world0)) = 0
   \<and> response (snd (Run (NewCommand ''echo'' [''hello''])
          (env_ok\<lparr>StderrPipe_err := Some ''exec: Stderr already set''\<rparr>)
          [OutputLine ''hello'', ProcDone None 2000000] world0)) = [''Running command: echo'']"
proof -
  have a: "StdoutPipe_err (env_ok\<lparr>StderrPipe_err := Some ''exec: Stderr already set''\<rparr>)
             = Some ''exec: Stderr already set''
           \<or> (StdoutPipe_err (env_ok\<lparr>StderrPipe_err := Some ''exec: Stderr already set''\<rparr>) = None
              \<and> StderrPipe_err (env_ok\<lparr>StderrPipe_err := Some ''exec: Stderr already set''\<rparr>)
                   = Some ''exec: Stderr already set'')"
    by (simp add: env_ok_def)
  have b: "StdoutPipe_err (env_ok\<lparr>StderrPipe_err := Some ''exec: Stderr already set''\<rparr>) = None"
    by (simp add: env_ok_def)
  from Run_pipe_failure_is_setup_error
         [OF a, of "NewCommand ''echo'' [''hello'']" "[OutputLine ''hello'', ProcDone None 2000000]" world0] b
  show ?thesis
    by (simp add: NewCommand_def world0_def)
qed

section \<open>The last line of the response\<close>

text \<open>
  C8 (as amended): the \<open>Command completed\<close> line is the last line written to the caller:
  it is written on the terminal process-completion event, when that event carries no
  error; \<open>Run\<close> returns on that event and reads no later event. A completion event with
  an error writes no line. The \<open>Command timed out\<close> line is written on the deadline
  tick, before the terminal event, and output lines are written after it.
\<close>

theorem Run_completion_line_is_last:
  assumes "Run c env pre w = (Waiting st', w')"
  shows "Run c env (pre @ ProcDone err endTime # rest) w
           = Run c env (pre @ [ProcDone err endTime]) w
         \<and> (\<exists>r. fst (Run c env (pre @ ProcDone err endTime # rest) w) = Returned r)
         \<and> response (snd (Run c env (pre @ ProcDone err endTime # rest) w)) =
             response w' @
               (if err = None then
                  [''Command completed in '' @
                     Duration_String (Truncate (Sub endTime (startTime_now env)) Second) @
                     '': '' @ Name c]
                else [])
         \<and> (\<not> processTerminated st' \<and> ShowOutput c \<longrightarrow>
              response (snd (Run c env
                  (pre @ [PollTick 1 intervalTime now None, OutputLine line]) w)) =
                response w' @ [''Command timed out in 1h0m0s: '' @ Name c, line])"
proof -
  have later: "Run c env (pre @ ProcDone err endTime # rest) w
           = Run c env (pre @ [ProcDone err endTime]) w"
    using assms
    by (simp add: Run_append Let_def split: option.splits prod.splits)
  have returned: "\<exists>r. fst (Run c env (pre @ ProcDone err endTime # rest) w) = Returned r"
    using assms
    by (simp add: Run_append Let_def split: option.splits prod.splits)
  have resp: "response (snd (Run c env (pre @ ProcDone err endTime # rest) w)) =
             response w' @
               (if err = None then
                  [''Command completed in '' @
                     Duration_String (Truncate (Sub endTime (startTime_now env)) Second) @
                     '': '' @ Name c]
                else [])"
    using assms
    by (auto simp: Run_append Let_def writeProgress_def dest: classify_world
        split: option.splits prod.splits)
  have timed_out: "\<not> processTerminated st' \<and> ShowOutput c \<longrightarrow>
              response (snd (Run c env
                  (pre @ [PollTick 1 intervalTime now None, OutputLine line]) w)) =
                response w' @ [''Command timed out in 1h0m0s: '' @ Name c, line]"
    using assms
    by (simp add: Run_append Let_def writeProgress_def Duration_String_max)
  from later returned resp timed_out show ?thesis by blast
qed

theorem Run_completion_line_is_last_witness:
  "Run (NewCommand ''echo'' [''hello'']) env_ok
       ([OutputLine ''hello''] @ ProcDone None 2000000 #
          [OutputLine ''late'', PollTick 2026 5000000000 5000000000 None]) world0
     = Run (NewCommand ''echo'' [''hello'']) env_ok
         ([OutputLine ''hello''] @ [ProcDone None 2000000]) world0
   \<and> response (snd (Run (NewCommand ''echo'' [''hello'']) env_ok
       ([OutputLine ''hello''] @ ProcDone None 2000000 #
          [OutputLine ''late'', PollTick 2026 5000000000 5000000000 None]) world0))
     = [''Running command: echo'', ''hello'', ''Command completed in 0s: echo'']
   \<and> response (snd (Run (NewCommand ''echo'' [''hello'']) env_ok
       ([OutputLine ''hello''] @
          [PollTick 1 3600000000000 3600000000000 None, OutputLine ''late'']) world0))
     = [''Running command: echo'', ''hello'', ''Command timed out in 1h0m0s: echo'', ''late'']"
proof -
  have "\<exists>st' w'. Run (NewCommand ''echo'' [''hello'']) env_ok [OutputLine ''hello''] world0
            = (Waiting st', w')
          \<and> \<not> processTerminated st'
          \<and> response w' = [''Running command: echo'', ''hello'']"
    by (simp add: run_simps)
  then obtain st' w' where
    h: "Run (NewCommand ''echo'' [''hello'']) env_ok [OutputLine ''hello''] world0 = (Waiting st', w')"
    and n: "\<not> processTerminated st'"
    and r: "response w' = [''Running command: echo'', ''hello'']"
    by blast
  have s: "ShowOutput (NewCommand ''echo'' [''hello''])"
    by (simp add: NewCommand_def)
  note t = Run_completion_line_is_last [OF h, of None 2000000
         "[OutputLine ''late'', PollTick 2026 5000000000 5000000000 None]"
         3600000000000 3600000000000 "''late''"]
  note t1 = t [THEN conjunct1]
  note t3 = t [THEN conjunct2, THEN conjunct2, THEN conjunct1]
  note t4 = t [THEN conjunct2, THEN conjunct2, THEN conjunct2]
  from t3 r have c2: "response (snd (Run (NewCommand ''echo'' [''hello'']) env_ok
       ([OutputLine ''hello''] @ ProcDone None 2000000 #
          [OutputLine ''late'', PollTick 2026 5000000000 5000000000 None]) world0))
     = [''Running command: echo'', ''hello'', ''Command completed in 0s: echo'']"
    by (simp add: NewCommand_def env_ok_def Duration_String_2ms)
  from t4 n s r have c3: "response (snd (Run (NewCommand ''echo'' [''hello'']) env_ok
       ([OutputLine ''hello''] @
          [PollTick 1 3600000000000 3600000000000 None, OutputLine ''late'']) world0))
     = [''Running command: echo'', ''hello'', ''Command timed out in 1h0m0s: echo'', ''late'']"
    by (simp add: NewCommand_def)
  from t1 c2 c3 show ?thesis by blast
qed

text \<open>
  C8 as stated fails for the timed-out line: it is written on the deadline tick, the
  loop goes on, and a line of output that arrives before the completion event is
  written after it. The failure message of the terminal event is not written at all.
\<close>

theorem Run_timeout_line_not_last_counterexample:
  "Run_loop (NewCommand ''sleep'' [''7200'']) 0
       \<lparr>lastIntervalTime = 0, processTerminated = False\<rparr> world0
       [PollTick 1 3600000000000 3600000000000 None, OutputLine ''late'']
     = (Waiting \<lparr>lastIntervalTime = 0, processTerminated = True\<rparr>,
        world0\<lparr>stderr_log := [(''[sleep] '', Println ''Command timed out in 1h0m0s: sleep''),
                                (''[sleep] '', Println ''late'')],
               response := [''Command timed out in 1h0m0s: sleep'', ''late''],
               flushes := 2, kills := 1, ticker_stops := 1\<rparr>)
   \<and> response (snd (Run (NewCommand ''sleep'' [''7200'']) env_ok
          [PollTick 1 3600000000000 3600000000000 None, OutputLine ''late'',
           ProcDone (Some (ExitError (Some (- 1)) ''signal: killed'')) 3600000000000] world0))
     = [''Running command: sleep'', ''Command timed out in 1h0m0s: sleep'', ''late'']"
  by (simp add: run_simps Duration_String_1h Duration_String_max Sprintf_d_m1)

section \<open>The handler\<close>

text \<open>
  C9: every command built by \<open>NewCommand\<close> has \<open>ShowOutput = true\<close>, \<open>CanFail = false\<close> and
  \<open>AllowedExitCodes = [0]\<close>, and the handler, whenever it gets as far as running a command,
  runs exactly the value of \<open>NewCommand\<close> on \<open>os.Args[1]\<close> and \<open>os.Args[2:]\<close>, with no field
  changed. So for such a command every output line goes through \<open>writeProgress\<close>, and
  every completion error other than an exit error with status 0 makes \<open>Run\<close> return an
  error.
\<close>

theorem handler_runs_NewCommand:
  assumes "2 \<le> length (os_Args h)"
    and "is_Flusher h"
    and "ReadAll_result h = Inr body"
    and "body = [] \<or> json_Unmarshal body = None"
  shows "ShowOutput (NewCommand name args)
         \<and> CanFail (NewCommand name args) = False
         \<and> AllowedExitCodes (NewCommand name args) = [0]
         \<and> handler json_Unmarshal h env evs w =
             (case Run (NewCommand (os_Args h ! 1) (drop 2 (os_Args h))) env evs
                     (commit_200 (if body = [] then
                        log_std (Println ''Not a Pub/Sub invocation (no request body).'') w
                        else w)) of
                (Returned (Some err), w2) \<Rightarrow> (HostExit 1, log_std (Fatal err) w2)
              | (Returned None, w2) \<Rightarrow> (HandlerReturns, w2)
              | (Waiting st, w2) \<Rightarrow> (HandlerWaiting, w2))
         \<and> Run_loop (NewCommand name args) t st0 w' (OutputLine line # evs')
             = Run_loop (NewCommand name args) t st0
                 (writeProgress (NewCommand name args) line w') evs'
         \<and> ((\<forall>txt. e \<noteq> ExitError (Some 0) txt) \<longrightarrow>
              (\<exists>msg. fst (Run_loop (NewCommand name args) t st0 w' (ProcDone (Some e) endTime # evs'))
                 = Returned (Some msg)))"
proof -
  have fields: "ShowOutput (NewCommand name args)
         \<and> CanFail (NewCommand name args) = False
         \<and> AllowedExitCodes (NewCommand name args) = [0]"
    by (simp add: NewCommand_def)
  have args: "(if length (os_Args h) > 2 then drop 2 (os_Args h) else []) = drop 2 (os_Args h)"
    by simp
  have h: "handler json_Unmarshal h env evs w =
             (case Run (NewCommand (os_Args h ! 1) (drop 2 (os_Args h))) env evs
                     (commit_200 (if body = [] then
                        log_std (Println ''Not a Pub/Sub invocation (no request body).'') w
                        else w)) of
                (Returned (Some err), w2) \<Rightarrow> (HostExit 1, log_std (Fatal err) w2)
              | (Returned None, w2) \<Rightarrow> (HandlerReturns, w2)
              | (Waiting st, w2) \<Rightarrow> (HandlerWaiting, w2))"
    using assms unfolding handler_def run_command_def Let_def args
    by auto
  have out: "Run_loop (NewCommand name args) t st0 w' (OutputLine line # evs')
             = Run_loop (NewCommand name args) t st0
                 (writeProgress (NewCommand name args) line w') evs'"
    by (simp add: NewCommand_def)
  have fail: "(\<forall>txt. e \<noteq> ExitError (Some 0) txt) \<longrightarrow>
              (\<exists>msg. fst (Run_loop (NewCommand name args) t st0 w' (ProcDone (Some e) endTime # evs'))
                 = Returned (Some msg))"
  proof (cases e)
    case (ExitError s tx)
    then show ?thesis
      by (cases s) (auto simp: NewCommand_def Let_def)
  next
    case (OtherError tx)
    then show ?thesis
      by (simp add: NewCommand_def Let_def)
  qed
  from fields h out fail show ?thesis by blast
qed

theorem handler_runs_NewCommand_witness:
  "handler (\<lambda>b. None) h_echo env_ok [OutputLine ''hello'', ProcDone None 2000000] world0 =
     (case Run (NewCommand ''echo'' [''hello'']) env_ok [OutputLine ''hello'', ProcDone None 2000000]
             (commit_200 (log_std (Println ''Not a Pub/Sub invocation (no request body).'') world0)) of
        (Returned (Some err), w2) \<Rightarrow> (HostExit 1, log_std (Fatal err) w2)
      | (Returned None, w2) \<Rightarrow> (HandlerReturns, w2)
      | (Waiting st, w2) \<Rightarrow> (HandlerWaiting, w2))
   \<and> (\<exists>msg. fst (Run_loop (NewCommand ''echo'' [''hello'']) 0
                  \<lparr>lastIntervalTime = 0, processTerminated = False\<rparr> world0
                  [ProcDone (Some (ExitError (Some 1) ''exit status 1'')) 2000000])
               = Returned (Some msg))"
proof -
  have a: "2 \<le> length (os_Args h_echo)" by (simp add: h_echo_def)
  have b: "is_Flusher h_echo" by (simp add: h_echo_def)
  have c: "ReadAll_result h_echo = Inr []" by (simp add: h_echo_def)
  have d: "([]::string) = [] \<or> (\<lambda>b. None) ([]::string) = (None :: string option)" by simp
  have e: "\<forall>txt. ExitError (Some 1) ''exit status 1'' \<noteq> ExitError (Some 0) txt" by simp
  have f: "os_Args h_echo ! 1 = ''echo''" "drop 2 (os_Args h_echo) = [''hello'']"
    by (simp_all add: h_echo_def)
  from handler_runs_NewCommand [OF a b c d, of "''echo''" "[''hello'']" env_ok
      "[OutputLine ''hello'', ProcDone None 2000000]" world0 0
      "\<lparr>lastIntervalTime = 0, processTerminated = False\<rparr>" world0 "''x''" "[]"
      "ExitError (Some 1) ''exit status 1''" 2000000] e f
  show ?thesis by simp
qed

text \<open>
  C10: when a command is configured and the request body has been read, a non-empty
  body that \<open>json.Unmarshal\<close> rejects is answered with 400 Bad Request: the handler
  returns, \<open>cmd.Start\<close> is not called and neither logger of a command is written to (no
  command exists); the parse error goes to the standard logger. An empty body is only
  logged, and the handler goes on to commit the 200 response and run the command.
\<close>

theorem handler_bad_json_rejected:
  assumes "length (os_Args h) \<noteq> 1"
    and "ReadAll_result h = Inr body"
  shows "(body \<noteq> [] \<and> json_Unmarshal body = Some err \<longrightarrow>
            fst (handler json_Unmarshal h env evs w) = HandlerReturns
            \<and> status (snd (handler json_Unmarshal h env evs w)) = Some 400
            \<and> response (snd (handler json_Unmarshal h env evs w)) = response w @ [''Bad Request'']
            \<and> starts (snd (handler json_Unmarshal h env evs w)) = starts w
            \<and> stdout_log (snd (handler json_Unmarshal h env evs w)) = stdout_log w
            \<and> stderr_log (snd (handler json_Unmarshal h env evs w)) = stderr_log w
            \<and> (is_Flusher h \<longrightarrow>
                 std_log (snd (handler json_Unmarshal h env evs w)) =
                   std_log w @ [Printf ''Failed to parse JSON body: %v'' [V err]]))
         \<and> (body = [] \<and> is_Flusher h \<longrightarrow>
            handler json_Unmarshal h env evs w =
              run_command h env evs
                (log_std (Println ''Not a Pub/Sub invocation (no request body).'') w))"
  using assms
  by (simp add: handler_def http_Error_def log_std_def)

theorem handler_bad_json_rejected_witness:
  "fst (handler (\<lambda>b. Some ''invalid character'')
       (h_echo\<lparr>ReadAll_result := Inr ''{''\<rparr>) env_ok
       [OutputLine ''hello'', ProcDone None 2000000] world0) = HandlerReturns
   \<and> status (snd (handler (\<lambda>b. Some ''invalid character'')
       (h_echo\<lparr>ReadAll_result := Inr ''{''\<rparr>) env_ok
       [OutputLine ''hello'', ProcDone None 2000000] world0)) = Some 400
   \<and> response (snd (handler (\<lambda>b. Some ''invalid character'')
       (h_echo\<lparr>ReadAll_result := Inr ''{''\<rparr>) env_ok
       [OutputLine ''hello'', ProcDone None 2000000] world0)) = [''Bad Request'']
   \<and> starts (snd (handler (\<lambda>b. Some ''invalid character'')
       (h_echo\<lparr>ReadAll_result := Inr ''{''\<rparr>) env_ok
       [OutputLine ''hello'', ProcDone None 2000000] world0)) = 0
   \<and> std_log (snd (handler (\<lambda>b. Some ''invalid character'')
       (h_echo\<lparr>ReadAll_result := Inr ''{''\<rparr>) env_ok
       [OutputLine ''hello'', ProcDone None 2000000] world0))
       = [Printf ''Failed to parse JSON body: %v'' [V ''invalid character'']]
   \<and> fst (handler (\<lambda>b. Some ''invalid character'') h_echo env_ok
            [OutputLine ''hello'', ProcDone None 2000000] world0) = HandlerReturns
   \<and> status (snd (handler (\<lambda>b. Some ''invalid character'') h_echo env_ok
            [OutputLine ''hello'', ProcDone None 2000000] world0)) = Some 200
   \<and> response (snd (handler (\<lambda>b. Some ''invalid character'') h_echo env_ok
            [OutputLine ''hello'', ProcDone None 2000000] world0))
       = [''Running command: echo'', ''hello'', ''Command completed in 0s: echo'']"
proof -
  have a: "length (os_Args (h_echo\<lparr>ReadAll_result := Inr ''{''\<rparr>)) \<noteq> 1"
    and b: "is_Flusher (h_echo\<lparr>ReadAll_result := Inr ''{''\<rparr>)"
    and c: "ReadAll_result (h_echo\<lparr>ReadAll_result := Inr ''{''\<rparr>) = Inr ''{''"
    by (simp_all add: h_echo_def)
  have a': "length (os_Args h_echo) \<noteq> 1"
    and b': "is_Flusher h_echo"
    and c': "ReadAll_result h_echo = Inr []"
    by (simp_all add: h_echo_def)
  have run: "fst (run_command h_echo env_ok [OutputLine ''hello'', ProcDone None 2000000]
               (log_std (Println ''Not a Pub/Sub invocation (no request body).'') world0))
             = HandlerReturns
           \<and> status (snd (run_command h_echo env_ok [OutputLine ''hello'', ProcDone None 2000000]
                  (log_std (Println ''Not a Pub/Sub invocation (no request body).'') world0)))
               = Some 200
           \<and> response (snd (run_command h_echo env_ok [OutputLine ''hello'', ProcDone None 2000000]
                  (log_std (Println ''Not a Pub/Sub invocation (no request body).'') world0)))
               = [''Running command: echo'', ''hello'', ''Command completed in 0s: echo'']"
    by (simp add: handler_simps run_simps h_echo_def Duration_String_2ms)
  from handler_bad_json_rejected [OF a c, of "\<lambda>b. Some ''invalid character''"
         "''invalid character''" env_ok "[OutputLine ''hello'', ProcDone None 2000000]" world0]
       handler_bad_json_rejected [OF a' c', of "\<lambda>b. Some ''invalid character''"
         "''invalid character''" env_ok "[OutputLine ''hello'', ProcDone None 2000000]" world0]
       run b b'
  show ?thesis
    by (simp add: world0_def)
qed

end
